theory Spec2Isabelle
  imports Complex_Main
begin

section \<open>Python values shared by the three demo scripts\<close>

text \<open>
  The repository holds three teaching scripts: \<^verbatim>\<open>linear_programming_demo.py\<close>,
  \<^verbatim>\<open>network_flow_demo.py\<close> and \<^verbatim>\<open>transportation_problem_demo.py\<close>. Each builds a
  small model, hands it to an external solver (PuLP with CBC, or NetworkX), and prints,
  plots and reports the result. The external solvers are not part of the repository: they
  appear below as parameters, constrained by their documented contract where a statement
  depends on what they return.

  Exceptions of the Python run time are values of \<open>py_error\<close>; a computation that may
  raise returns \<open>py_error + 'a\<close>. Python's unbounded integers are \<open>int\<close>; floats are
  idealised as \<open>real\<close>. Chinese string literals of the scripts are transliterated.
\<close>

datatype py_error = IndexError | ValueError | ZeroDivisionError | KeyError

definition bind_err :: "'e + 'a \<Rightarrow> ('a \<Rightarrow> 'e + 'b) \<Rightarrow> 'e + 'b" where
  "bind_err r f = (case r of Inl e \<Rightarrow> Inl e | Inr v \<Rightarrow> f v)"

fun sequence_err :: "('e + 'a) list \<Rightarrow> 'e + 'a list" where
  "sequence_err [] = Inr []"
| "sequence_err (r # rs) =
     (case r of
        Inl e \<Rightarrow> Inl e
      | Inr v \<Rightarrow> (case sequence_err rs of Inl e \<Rightarrow> Inl e | Inr vs \<Rightarrow> Inr (v # vs)))"

text \<open>\<^verbatim>\<open>xs[i]\<close> for an index produced by \<^verbatim>\<open>range\<close> (never negative).\<close>

definition py_index :: "'a list \<Rightarrow> nat \<Rightarrow> py_error + 'a" where
  "py_index xs i = (if i < length xs then Inr (xs ! i) else Inl IndexError)"

text \<open>What a run does to the outside world, in order.\<close>

datatype event =
    Print string
  | PrintValue string real
  | Warning string
  | SolverCall string
  | GraphMetric string
  | SaveFig string

definition solver_calls :: "event list \<Rightarrow> nat" where
  "solver_calls es = length (filter (\<lambda>e. case e of SolverCall _ \<Rightarrow> True | _ \<Rightarrow> False) es)"

definition savefigs :: "event list \<Rightarrow> nat" where
  "savefigs es = length (filter (\<lambda>e. case e of SaveFig _ \<Rightarrow> True | _ \<Rightarrow> False) es)"

text \<open>The events that follow the first chart file written (empty when none is written).\<close>

fun after_savefig :: "event list \<Rightarrow> event list" where
  "after_savefig [] = []"
| "after_savefig (SaveFig f # es) = es"
| "after_savefig (e # es) = after_savefig es"

section \<open>Linear programs as PuLP builds them\<close>

datatype cmp = LE | GE | EQ

datatype sense = LpMaximize | LpMinimize

type_synonym 'v linexpr = "(real \<times> 'v) list"

record 'v lp_constraint =
  c_lhs :: "'v linexpr"
  c_op :: cmp
  c_rhs :: real

text \<open>Every variable of the scripts is declared with \<^verbatim>\<open>lowBound=0\<close>.\<close>

record 'v lp_problem =
  p_sense :: sense
  p_vars :: "'v list"
  p_objective :: "'v linexpr"
  p_constraints :: "'v lp_constraint list"

definition lp_value :: "('v \<Rightarrow> real) \<Rightarrow> 'v linexpr \<Rightarrow> real" where
  "lp_value val e = sum_list (map (\<lambda>(c, v). c * val v) e)"

definition lp_holds :: "('v \<Rightarrow> real) \<Rightarrow> 'v lp_constraint \<Rightarrow> bool" where
  "lp_holds val c =
     (case c_op c of
        LE \<Rightarrow> lp_value val (c_lhs c) \<le> c_rhs c
      | GE \<Rightarrow> lp_value val (c_lhs c) \<ge> c_rhs c
      | EQ \<Rightarrow> lp_value val (c_lhs c) = c_rhs c)"

definition lp_feasible :: "'v lp_problem \<Rightarrow> ('v \<Rightarrow> real) \<Rightarrow> bool" where
  "lp_feasible p val =
     (list_all (\<lambda>v. 0 \<le> val v) (p_vars p) \<and> list_all (lp_holds val) (p_constraints p))"

section \<open>transportation_problem_demo.py: the basic transportation model\<close>

text \<open>
  The scenario data of \<^verbatim>\<open>solve_basic_transportation\<close> (lines 64-79): the names, the supply
  and demand lists and the cost matrix, a NumPy array kept as its list of rows.
\<close>

record scenario =
  factories :: "string list"
  warehouses :: "string list"
  supply_qty :: "int list"
  demand_qty :: "int list"
  cost_matrix :: "real list list"

definition basic_scenario :: scenario where
  "basic_scenario =
     \<lparr> factories = [''factory A'', ''factory B'', ''factory C''],
       warehouses = [''warehouse 1'', ''warehouse 2'', ''warehouse 3'', ''warehouse 4''],
       supply_qty = [300, 400, 500],
       demand_qty = [250, 350, 400, 200],
       cost_matrix = [[8, 6, 10, 9], [9, 12, 13, 7], [14, 9, 16, 5]] \<rparr>"

text \<open>
  \<^verbatim>\<open>np.column_stack([cost_matrix, np.zeros(k)])\<close>: the vector becomes a column of \<open>k\<close>
  entries, and NumPy raises ValueError unless the matrix has \<open>k\<close> rows.
\<close>

definition column_stack_zeros :: "real list list \<Rightarrow> nat \<Rightarrow> py_error + real list list" where
  "column_stack_zeros m k =
     (if length m = k then Inr (map (\<lambda>row. row @ [0]) m) else Inl ValueError)"

text \<open>
  \<^verbatim>\<open>np.vstack([cost_matrix, np.zeros(k)])\<close>: the vector becomes a row of \<open>k\<close> entries, and
  NumPy raises ValueError unless the rows of the matrix have \<open>k\<close> entries (an array with
  no rows counts as one empty row).
\<close>

definition vstack_zeros :: "real list list \<Rightarrow> nat \<Rightarrow> py_error + real list list" where
  "vstack_zeros m k =
     (if m = [] then (if k = 0 then Inr [[], []] else Inl ValueError)
      else if list_all (\<lambda>row. length row = k) m then Inr (m @ [replicate k 0])
      else Inl ValueError)"

text \<open>
  The balance check of lines 95-108. The branch announces itself on the terminal, which
  makes its execution visible in the returned events. The literal \<open>3\<close> of
  \<^verbatim>\<open>np.zeros(3)\<close> is the source's.
\<close>

definition rebalance :: "scenario \<Rightarrow> py_error + (scenario \<times> event list)" where
  "rebalance s =
     (if sum_list (supply_qty s) \<noteq> sum_list (demand_qty s) then
        (if sum_list (supply_qty s) > sum_list (demand_qty s) then
           bind_err (column_stack_zeros (cost_matrix s) 3) (\<lambda>cm.
             Inr (s\<lparr> demand_qty := demand_qty s @ [sum_list (supply_qty s) - sum_list (demand_qty s)],
                    warehouses := warehouses s @ [''dummy warehouse''],
                    cost_matrix := cm \<rparr>,
                  [Warning ''unbalanced problem: supply differs from demand'',
                   Print ''added dummy warehouse'']))
         else
           bind_err (vstack_zeros (cost_matrix s) (length (warehouses s))) (\<lambda>cm.
             Inr (s\<lparr> supply_qty := supply_qty s @ [sum_list (demand_qty s) - sum_list (supply_qty s)],
                    factories := factories s @ [''dummy factory''],
                    cost_matrix := cm \<rparr>,
                  [Warning ''unbalanced problem: supply differs from demand'',
                   Print ''added dummy factory''])))
      else Inr (s, []))"

text \<open>
  The model of lines 110-131: one variable \<open>x[i,j]\<close> per factory and warehouse, the
  objective \<open>\<Sum> cost_matrix[i][j] * x[i,j]\<close>, one constraint per factory and one per
  warehouse. Reading \<^verbatim>\<open>cost_matrix[i][j]\<close>, \<^verbatim>\<open>supply[i]\<close> or \<^verbatim>\<open>demand[j]\<close> out of
  range raises IndexError.
\<close>

definition route_vars :: "scenario \<Rightarrow> (nat \<times> nat) list" where
  "route_vars s =
     concat (map (\<lambda>i. map (\<lambda>j. (i, j)) [0..<length (warehouses s)]) [0..<length (factories s)])"

definition cost_at :: "real list list \<Rightarrow> nat \<times> nat \<Rightarrow> py_error + real" where
  "cost_at m ij = bind_err (py_index m (fst ij)) (\<lambda>row. py_index row (snd ij))"

definition supply_constraint :: "scenario \<Rightarrow> nat \<Rightarrow> py_error + (nat \<times> nat) lp_constraint" where
  "supply_constraint s i =
     bind_err (py_index (supply_qty s) i) (\<lambda>b.
       Inr \<lparr> c_lhs = map (\<lambda>j. (1, (i, j))) [0..<length (warehouses s)],
             c_op = EQ, c_rhs = of_int b \<rparr>)"

definition demand_constraint :: "scenario \<Rightarrow> nat \<Rightarrow> py_error + (nat \<times> nat) lp_constraint" where
  "demand_constraint s j =
     bind_err (py_index (demand_qty s) j) (\<lambda>b.
       Inr \<lparr> c_lhs = map (\<lambda>i. (1, (i, j))) [0..<length (factories s)],
             c_op = EQ, c_rhs = of_int b \<rparr>)"

definition build_basic_model :: "scenario \<Rightarrow> py_error + (nat \<times> nat) lp_problem" where
  "build_basic_model s =
     bind_err (sequence_err (map (\<lambda>ij. bind_err (cost_at (cost_matrix s) ij) (\<lambda>c. Inr (c, ij)))
                               (route_vars s))) (\<lambda>obj.
     bind_err (sequence_err (map (supply_constraint s) [0..<length (factories s)])) (\<lambda>sc.
     bind_err (sequence_err (map (demand_constraint s) [0..<length (warehouses s)])) (\<lambda>dc.
       Inr \<lparr> p_sense = LpMinimize, p_vars = route_vars s,
             p_objective = obj, p_constraints = sc @ dc \<rparr>)))"

text \<open>
  Line 88 prints the cost matrix as a table,
  \<^verbatim>\<open>pd.DataFrame(cost_matrix, index=factories, columns=warehouses)\<close>: pandas raises
  ValueError unless the matrix has one row per factory and one column per warehouse.
\<close>

definition shape_ok :: "scenario \<Rightarrow> bool" where
  "shape_ok s =
     (length (cost_matrix s) = length (factories s) \<and>
      list_all (\<lambda>row. length row = length (warehouses s)) (cost_matrix s))"

definition cost_table :: "scenario \<Rightarrow> py_error + event list" where
  "cost_table s = (if shape_ok s then Inr [Print ''cost matrix''] else Inl ValueError)"

text \<open>
  Cost table, balance check, then model construction: what precedes \<^verbatim>\<open>prob.solve\<close>
  (lines 64-131).
\<close>

definition model_of_scenario :: "scenario \<Rightarrow> py_error + (nat \<times> nat) lp_problem" where
  "model_of_scenario s =
     bind_err (cost_table s) (\<lambda>out0.
     bind_err (rebalance s) (\<lambda>(s', out). build_basic_model s'))"

section \<open>linear_programming_demo.py: production planning\<close>

text \<open>
  The data block of \<^verbatim>\<open>solve_production_planning\<close> (lines 70-79). The method takes no
  argument; the data is a parameter here so that statements about other data can be made,
  and \<open>production_data\<close> is the instance the script runs.
\<close>

record lp_data =
  d_products :: "string list"
  d_profit :: "real list"
  d_labor_req :: "real list"
  d_material_req :: "real list"
  d_labor_available :: real
  d_material_available :: real

definition production_data :: lp_data where
  "production_data =
     \<lparr> d_products = [''product A'', ''product B'', ''product C''],
       d_profit = [40, 30, 50],
       d_labor_req = [2, 1, 3],
       d_material_req = [1, 2, 1],
       d_labor_available = 100,
       d_material_available = 80 \<rparr>"

text \<open>
  \<^verbatim>\<open>self.results\<close> after a solve (lines 124-135). The profit list is a Python list object
  that \<^verbatim>\<open>sensitivity_analysis\<close> later reads through an alias and copies, so it lives in a
  store of list objects and the result holds its address. \<^verbatim>\<open>self.results = {}\<close> is \<open>None\<close>.
\<close>

record lp_result =
  products :: "string list"
  solution :: "real list"
  profit :: nat
  max_profit :: real
  labor_used :: real
  material_used :: real
  labor_available :: real
  material_available :: real
  labor_req :: "real list"
  material_req :: "real list"

record lp_demo =
  heap :: "real list list"
  lp_results :: "lp_result option"

definition lp_init :: lp_demo where
  "lp_init = \<lparr> heap = [], lp_results = None \<rparr>"

text \<open>A new list object: its address and the extended store (\<^verbatim>\<open>[...]\<close> and \<^verbatim>\<open>.copy()\<close>).\<close>

definition alloc :: "real list list \<Rightarrow> real list \<Rightarrow> nat \<times> real list list" where
  "alloc h xs = (length h, h @ [xs])"

text \<open>\<^verbatim>\<open>obj[i] = v\<close> on the list object at address \<open>a\<close>.\<close>

definition store_item :: "real list list \<Rightarrow> nat \<Rightarrow> nat \<Rightarrow> real \<Rightarrow> py_error + real list list" where
  "store_item h a i v =
     (if i < length (h ! a) then Inr (h[a := (h ! a)[i := v]]) else Inl IndexError)"

definition py_div :: "real \<Rightarrow> real \<Rightarrow> py_error + real" where
  "py_div a b = (if b = 0 then Inl ZeroDivisionError else Inr (a / b))"

text \<open>\<^verbatim>\<open>[coef[i] * x[i] for i in range(3)]\<close>, as a linear expression over \<open>x0, x1, x2\<close>.\<close>

definition coef_expr :: "real list \<Rightarrow> py_error + nat linexpr" where
  "coef_expr coef =
     sequence_err (map (\<lambda>i. bind_err (py_index coef i) (\<lambda>c. Inr (c, i))) [0, 1, 2])"

text \<open>
  The model of lines 89-101, which lines 265-275 of \<^verbatim>\<open>sensitivity_analysis\<close> build again
  with the same shape: maximise \<open>\<Sum> profit[i] * x[i]\<close> under the labor and the material
  constraint.
\<close>

definition production_problem ::
  "real list \<Rightarrow> real list \<Rightarrow> real list \<Rightarrow> real \<Rightarrow> real \<Rightarrow> py_error + nat lp_problem" where
  "production_problem prof lab mat la ma =
     bind_err (coef_expr prof) (\<lambda>obj.
     bind_err (coef_expr lab) (\<lambda>l.
     bind_err (coef_expr mat) (\<lambda>m.
       Inr \<lparr> p_sense = LpMaximize, p_vars = [0, 1, 2], p_objective = obj,
             p_constraints = [\<lparr> c_lhs = l, c_op = LE, c_rhs = la \<rparr>,
                              \<lparr> c_lhs = m, c_op = LE, c_rhs = ma \<rparr>] \<rparr>)))"

text \<open>\<^verbatim>\<open>sum(req[i] * solution[i] for i in range(3))\<close> (lines 116-117).\<close>

definition resource_used :: "real list \<Rightarrow> real list \<Rightarrow> py_error + real" where
  "resource_used req sol =
     bind_err (sequence_err (map (\<lambda>i. bind_err (py_index req i) (\<lambda>r.
                 bind_err (py_index sol i) (\<lambda>x. Inr (r * x)))) [0, 1, 2])) (\<lambda>ts. Inr (sum_list ts))"

text \<open>
  \<^verbatim>\<open>solve_production_planning\<close>. The CBC solver is the parameter \<open>solver\<close>: it maps the
  model to the values of its variables, from which PuLP evaluates the objective. The loop
  of lines 111-112 reads \<^verbatim>\<open>solution[i]\<close> for every product; the utilisation percentages
  of lines 120-121 are computed before the results are stored.
\<close>

definition solve_production_planning_on ::
  "lp_data \<Rightarrow> (nat lp_problem \<Rightarrow> nat \<Rightarrow> real) \<Rightarrow> lp_demo
     \<Rightarrow> py_error + (lp_demo \<times> event list \<times> real list \<times> real)" where
  "solve_production_planning_on d solver st =
     (let (a, h) = alloc (heap st) (d_profit d) in
      bind_err (production_problem (h ! a) (d_labor_req d) (d_material_req d)
                  (d_labor_available d) (d_material_available d)) (\<lambda>prob.
      let val = solver prob;
          sol = map val [0, 1, 2];
          best = lp_value val (p_objective prob) in
      if length (d_products d) > 3 then Inl IndexError else
      bind_err (resource_used (d_labor_req d) sol) (\<lambda>lu.
      bind_err (resource_used (d_material_req d) sol) (\<lambda>mu.
      bind_err (py_div lu (d_labor_available d)) (\<lambda>lp.
      bind_err (py_div mu (d_material_available d)) (\<lambda>mp.
        Inr (\<lparr> heap = h,
                lp_results = Some \<lparr> products = d_products d, solution = sol, profit = a,
                  max_profit = best, labor_used = lu, material_used = mu,
                  labor_available = d_labor_available d,
                  material_available = d_material_available d,
                  labor_req = d_labor_req d, material_req = d_material_req d \<rparr> \<rparr>,
             [Print ''production planning'', SolverCall ''CBC'',
              PrintValue ''max profit'' best,
              PrintValue ''labor utilisation percent'' (lp * 100),
              PrintValue ''material utilisation percent'' (mp * 100)],
             sol, best)))))))"

definition solve_production_planning ::
  "(nat lp_problem \<Rightarrow> nat \<Rightarrow> real) \<Rightarrow> lp_demo
     \<Rightarrow> py_error + (lp_demo \<times> event list \<times> real list \<times> real)" where
  "solve_production_planning = solve_production_planning_on production_data"

text \<open>
  \<^verbatim>\<open>visualize_results\<close>: the guard of lines 144-146, then the numbers the charts need (the
  two utilisation percentages of lines 170-173, the profit contributions of lines 190-191,
  the resource demands of lines 207-210), then the one \<^verbatim>\<open>plt.savefig\<close>. The drawing
  itself is the plotting library's.
\<close>

definition contributions :: "real list \<Rightarrow> real list \<Rightarrow> nat \<Rightarrow> py_error + real list" where
  "contributions prof sol n =
     sequence_err (map (\<lambda>i. bind_err (py_index prof i) (\<lambda>p.
                     bind_err (py_index sol i) (\<lambda>x. Inr (p * x)))) [0..<n])"

definition lp_visualize_results :: "lp_demo \<Rightarrow> py_error + (lp_demo \<times> event list)" where
  "lp_visualize_results st =
     (case lp_results st of
        None \<Rightarrow> Inr (st, [Warning ''run a solve method first''])
      | Some r \<Rightarrow>
          bind_err (py_div (labor_used r) (labor_available r)) (\<lambda>lp.
          bind_err (py_div (material_used r) (material_available r)) (\<lambda>mp.
          bind_err (contributions (heap st ! profit r) (solution r) (length (products r))) (\<lambda>pc.
          bind_err (contributions (labor_req r) (solution r) (length (products r))) (\<lambda>ld.
          bind_err (contributions (material_req r) (solution r) (length (products r))) (\<lambda>md.
            Inr (st, [Print ''generating charts'',
                      SaveFig ''linear_programming_results.png'',
                      Print ''chart saved''])))))))"

text \<open>
  \<^verbatim>\<open>sensitivity_analysis\<close>. One variant (lines 262-281): the new coefficient is read
  through the alias \<^verbatim>\<open>base_profits\<close>, the list is copied into a new object, the copy is
  updated, a new problem is built from the copy and solved.
\<close>

definition sensitivity_variant ::
  "(nat lp_problem \<Rightarrow> nat \<Rightarrow> real) \<Rightarrow> lp_result \<Rightarrow> real list list \<Rightarrow> nat \<Rightarrow> real
     \<Rightarrow> py_error + (real list list \<times> event list)" where
  "sensitivity_variant solver r h i change =
     bind_err (py_index (h ! profit r) i) (\<lambda>base.
     let new_profit = base * (1 + change / 100);
         (a, h1) = alloc h (h ! profit r) in
     bind_err (store_item h1 a i new_profit) (\<lambda>h2.
     bind_err (production_problem (h2 ! a) (labor_req r) (material_req r)
                 (labor_available r) (material_available r)) (\<lambda>prob.
     let val = solver prob;
         new_max_profit = lp_value val (p_objective prob) in
       Inr (h2, [SolverCall ''CBC'',
                 PrintValue ''total profit'' new_max_profit,
                 PrintValue ''change'' (new_max_profit - max_profit r)]))))"

fun sensitivity_changes ::
  "(nat lp_problem \<Rightarrow> nat \<Rightarrow> real) \<Rightarrow> lp_result \<Rightarrow> real list list \<Rightarrow> nat \<Rightarrow> real list
     \<Rightarrow> py_error + (real list list \<times> event list)" where
  "sensitivity_changes solver r h i [] = Inr (h, [])"
| "sensitivity_changes solver r h i (c # cs) =
     bind_err (sensitivity_variant solver r h i c) (\<lambda>(h1, es1).
     bind_err (sensitivity_changes solver r h1 i cs) (\<lambda>(h2, es2). Inr (h2, es1 @ es2)))"

fun sensitivity_products ::
  "(nat lp_problem \<Rightarrow> nat \<Rightarrow> real) \<Rightarrow> lp_result \<Rightarrow> real list list \<Rightarrow> nat list
     \<Rightarrow> py_error + (real list list \<times> event list)" where
  "sensitivity_products solver r h [] = Inr (h, [])"
| "sensitivity_products solver r h (i # is) =
     bind_err (sensitivity_changes solver r h i [-20, -10, 10, 20]) (\<lambda>(h1, es1).
     bind_err (sensitivity_products solver r h1 is) (\<lambda>(h2, es2).
       Inr (h2, Print ''effect of a profit change of this product'' # es1 @ es2)))"

definition sensitivity_analysis ::
  "(nat lp_problem \<Rightarrow> nat \<Rightarrow> real) \<Rightarrow> lp_demo \<Rightarrow> py_error + (lp_demo \<times> event list)" where
  "sensitivity_analysis solver st =
     (case lp_results st of
        None \<Rightarrow> Inr (st, [Warning ''run a solve method first''])
      | Some r \<Rightarrow>
          bind_err (sensitivity_products solver r (heap st) [0..<length (products r)])
            (\<lambda>(h, es). Inr (st\<lparr> heap := h \<rparr>, Print ''sensitivity analysis'' # es)))"

text \<open>
  \<^verbatim>\<open>generate_report\<close>: the guard of lines 288-290, the solution lines (\<^verbatim>\<open>solution[i]\<close> for
  every product), the two utilisation percentages of lines 307-308, and the product of
  highest unit profit (\<^verbatim>\<open>max\<close> of an empty list raises ValueError).
\<close>

definition lp_generate_report :: "lp_demo \<Rightarrow> py_error + (lp_demo \<times> event list)" where
  "lp_generate_report st =
     (case lp_results st of
        None \<Rightarrow> Inr (st, [Warning ''run a solve method first''])
      | Some r \<Rightarrow>
          if length (solution r) < length (products r) then Inl IndexError else
          bind_err (py_div (labor_used r) (labor_available r)) (\<lambda>lp.
          bind_err (py_div (material_used r) (material_available r)) (\<lambda>mp.
          if heap st ! profit r = [] then Inl ValueError else
            Inr (st, [Print ''report'',
                      PrintValue ''max profit'' (max_profit r),
                      PrintValue ''labor utilisation percent'' (lp * 100),
                      PrintValue ''material utilisation percent'' (mp * 100)]))))"

text \<open>\<^verbatim>\<open>main\<close> (lines 326-348): solve, visualise, sensitivity analysis, report.\<close>

definition lp_main :: "(nat lp_problem \<Rightarrow> nat \<Rightarrow> real) \<Rightarrow> py_error + event list" where
  "lp_main solver =
     bind_err (solve_production_planning solver lp_init) (\<lambda>(st1, es1, sol, best).
     bind_err (lp_visualize_results st1) (\<lambda>(st2, es2).
     bind_err (sensitivity_analysis solver st2) (\<lambda>(st3, es3).
     bind_err (lp_generate_report st3) (\<lambda>(st4, es4).
       Inr (es1 @ es2 @ es3 @ es4 @ [Print ''demo finished''])))))"

section \<open>network_flow_demo.py: maximum flow, minimum-cost flow, shortest path\<close>

subsection \<open>The maximum-flow network\<close>

text \<open>The nodes \<^verbatim>\<open>'S', 'A', 'B', 'C', 'D', 'T'\<close> of line 65.\<close>

datatype node = nS | nA | nB | nC | nD | nT

definition nodes :: "node list" where
  "nodes = [nS, nA, nB, nC, nD, nT]"

definition edges_capacity :: "(node \<times> node \<times> int) list" where
  "edges_capacity =
     [(nS, nA, 16), (nS, nB, 13),
      (nA, nB, 4), (nA, nC, 12),
      (nB, nD, 14), (nC, nB, 9),
      (nC, nT, 20), (nD, nC, 7),
      (nD, nT, 4)]"

text \<open>
  A \<^verbatim>\<open>nx.DiGraph\<close> is kept as its edges with their capacity, in insertion order;
  \<^verbatim>\<open>add_edge\<close> on an edge already present replaces its attribute.
\<close>

type_synonym digraph = "(node \<times> node \<times> int) list"

definition add_edge :: "digraph \<Rightarrow> node \<times> node \<times> int \<Rightarrow> digraph" where
  "add_edge g e =
     (if list_ex (\<lambda>e'. fst e' = fst e \<and> fst (snd e') = fst (snd e)) g
      then map (\<lambda>e'. if fst e' = fst e \<and> fst (snd e') = fst (snd e) then e else e') g
      else g @ [e])"

definition max_flow_graph :: digraph where
  "max_flow_graph = foldl add_edge [] edges_capacity"

text \<open>\<^verbatim>\<open>G[start][end]['capacity']\<close>.\<close>

definition capacity_of :: "digraph \<Rightarrow> node \<Rightarrow> node \<Rightarrow> py_error + int" where
  "capacity_of g u v =
     (case find (\<lambda>e. fst e = u \<and> fst (snd e) = v) g of
        None \<Rightarrow> Inl KeyError
      | Some e \<Rightarrow> Inr (snd (snd e)))"

text \<open>
  What \<^verbatim>\<open>nx.maximum_flow\<close> promises: a flow that respects every capacity, conserves flow
  at every node but the source and the sink, and whose value no feasible flow exceeds.
\<close>

definition inflow :: "digraph \<Rightarrow> (node \<Rightarrow> node \<Rightarrow> int) \<Rightarrow> node \<Rightarrow> int" where
  "inflow g f v = sum_list (map (\<lambda>e. if fst (snd e) = v then f (fst e) v else 0) g)"

definition outflow :: "digraph \<Rightarrow> (node \<Rightarrow> node \<Rightarrow> int) \<Rightarrow> node \<Rightarrow> int" where
  "outflow g f v = sum_list (map (\<lambda>e. if fst e = v then f v (fst (snd e)) else 0) g)"

definition within_capacity :: "digraph \<Rightarrow> (node \<Rightarrow> node \<Rightarrow> int) \<Rightarrow> bool" where
  "within_capacity g f =
     list_all (\<lambda>e. 0 \<le> f (fst e) (fst (snd e)) \<and> f (fst e) (fst (snd e)) \<le> snd (snd e)) g"

definition conserved :: "digraph \<Rightarrow> node \<Rightarrow> node \<Rightarrow> (node \<Rightarrow> node \<Rightarrow> int) \<Rightarrow> bool" where
  "conserved g s t f =
     list_all (\<lambda>v. inflow g f v = outflow g f v) (filter (\<lambda>v. v \<noteq> s \<and> v \<noteq> t) nodes)"

definition feasible_flow :: "digraph \<Rightarrow> node \<Rightarrow> node \<Rightarrow> (node \<Rightarrow> node \<Rightarrow> int) \<Rightarrow> bool" where
  "feasible_flow g s t f = (within_capacity g f \<and> conserved g s t f)"

definition flow_value :: "digraph \<Rightarrow> node \<Rightarrow> (node \<Rightarrow> node \<Rightarrow> int) \<Rightarrow> int" where
  "flow_value g s f = outflow g f s - inflow g f s"

definition is_maximum_flow ::
  "digraph \<Rightarrow> node \<Rightarrow> node \<Rightarrow> int \<times> (node \<Rightarrow> node \<Rightarrow> int) \<Rightarrow> bool" where
  "is_maximum_flow g s t r =
     (feasible_flow g s t (snd r) \<and> fst r = flow_value g s (snd r) \<and>
      (\<forall>f. feasible_flow g s t f \<longrightarrow> flow_value g s f \<le> fst r))"

text \<open>
  The cuts that separate \<open>s\<close> from \<open>t\<close>: \<open>s\<close> together with any choice of the other
  nodes; the capacity of a cut sums the edges that leave the source side.
\<close>

definition st_cuts :: "node \<Rightarrow> node \<Rightarrow> node list list" where
  "st_cuts s t = map (\<lambda>side. s # side) (subseqs (filter (\<lambda>v. v \<noteq> s \<and> v \<noteq> t) nodes))"

definition cut_capacity :: "digraph \<Rightarrow> node list \<Rightarrow> int" where
  "cut_capacity g side =
     sum_list (map (\<lambda>e. if List.member side (fst e) \<and> \<not> List.member side (fst (snd e))
                         then snd (snd e) else 0) g)"

definition min_cut_capacity :: "digraph \<Rightarrow> node \<Rightarrow> node \<Rightarrow> int" where
  "min_cut_capacity g s t = min_list (map (cut_capacity g) (st_cuts s t))"

subsection \<open>The road graph\<close>

text \<open>The cities of line 258: the start, cities A to D, the destination.\<close>

datatype city = Origin | CityA | CityB | CityC | CityD | Dest

definition roads :: "(city \<times> city \<times> int) list" where
  "roads =
     [(Origin, CityA, 10), (Origin, CityB, 15),
      (CityA, CityC, 12), (CityA, CityD, 15),
      (CityB, CityC, 8), (CityB, CityD, 7),
      (CityC, Dest, 10), (CityD, Dest, 12),
      (CityA, CityB, 6), (CityC, CityD, 5)]"

text \<open>A \<^verbatim>\<open>nx.Graph\<close> is undirected: an edge is found from either end.\<close>

type_synonym ugraph = "(city \<times> city \<times> int) list"

definition joins :: "city \<Rightarrow> city \<Rightarrow> city \<times> city \<times> int \<Rightarrow> bool" where
  "joins u v e = ((fst e = u \<and> fst (snd e) = v) \<or> (fst e = v \<and> fst (snd e) = u))"

definition add_road :: "ugraph \<Rightarrow> city \<times> city \<times> int \<Rightarrow> ugraph" where
  "add_road g e =
     (if list_ex (joins (fst e) (fst (snd e))) g
      then map (\<lambda>e'. if joins (fst e) (fst (snd e)) e' then e else e') g
      else g @ [e])"

definition road_graph :: ugraph where
  "road_graph = foldl add_road [] roads"

text \<open>\<^verbatim>\<open>G[start][end]['weight']\<close>.\<close>

definition weight_of :: "ugraph \<Rightarrow> city \<Rightarrow> city \<Rightarrow> py_error + int" where
  "weight_of g u v =
     (case find (joins u v) g of None \<Rightarrow> Inl KeyError | Some e \<Rightarrow> Inr (snd (snd e)))"

text \<open>
  The loop of lines 290-304 over the returned path: one entry per leg with its distance
  and the running total.
\<close>

record path_detail =
  pd_from :: city
  pd_to :: city
  pd_distance :: int
  pd_cumulative :: int

fun path_details :: "ugraph \<Rightarrow> city list \<Rightarrow> int \<Rightarrow> py_error + (path_detail list \<times> int)" where
  "path_details g (u # v # rest) total_distance =
     bind_err (weight_of g u v) (\<lambda>d.
     bind_err (path_details g (v # rest) (total_distance + d)) (\<lambda>(ds, final).
       Inr (\<lparr> pd_from = u, pd_to = v, pd_distance = d,
               pd_cumulative = total_distance + d \<rparr> # ds, final)))"
| "path_details g p total_distance = Inr ([], total_distance)"

text \<open>
  What \<^verbatim>\<open>nx.shortest_path\<close> and \<^verbatim>\<open>nx.shortest_path_length\<close> promise. The cost of a path
  is the sum of its edge weights, as the loop above adds them; a simple path visits no
  city twice.
\<close>

definition path_cost :: "ugraph \<Rightarrow> city list \<Rightarrow> int option" where
  "path_cost g p = (case path_details g p 0 of Inl e \<Rightarrow> None | Inr r \<Rightarrow> Some (snd r))"

definition simple_path :: "ugraph \<Rightarrow> city \<Rightarrow> city \<Rightarrow> city list \<Rightarrow> bool" where
  "simple_path g s t p =
     (p \<noteq> [] \<and> hd p = s \<and> last p = t \<and> distinct p \<and> path_cost g p \<noteq> None)"

definition is_shortest_path :: "ugraph \<Rightarrow> city \<Rightarrow> city \<Rightarrow> city list \<Rightarrow> bool" where
  "is_shortest_path g s t p =
     (simple_path g s t p \<and>
      (\<forall>q. simple_path g s t q \<longrightarrow> the (path_cost g p) \<le> the (path_cost g q)))"

definition is_shortest_length :: "ugraph \<Rightarrow> city \<Rightarrow> city \<Rightarrow> int \<Rightarrow> bool" where
  "is_shortest_length g s t d =
     (\<exists>p. is_shortest_path g s t p \<and> path_cost g p = Some d)"

text \<open>The NetworkX routines the solve methods call.\<close>

record networkx =
  maximum_flow :: "digraph \<Rightarrow> node \<Rightarrow> node \<Rightarrow> int \<times> (node \<Rightarrow> node \<Rightarrow> int)"
  shortest_path :: "ugraph \<Rightarrow> city \<Rightarrow> city \<Rightarrow> city list"
  shortest_path_length :: "ugraph \<Rightarrow> city \<Rightarrow> city \<Rightarrow> int"
  is_connected :: "(city \<times> city \<times> int) list \<Rightarrow> bool"

definition nx_contract :: "networkx \<Rightarrow> bool" where
  "nx_contract nx =
     (is_maximum_flow max_flow_graph nS nT (maximum_flow nx max_flow_graph nS nT) \<and>
      is_shortest_path road_graph Origin Dest (shortest_path nx road_graph Origin Dest) \<and>
      is_shortest_length road_graph Origin Dest (shortest_path_length nx road_graph Origin Dest))"

subsection \<open>The demo object and its methods\<close>

record flow_detail =
  fd_from :: node
  fd_to :: node
  fd_flow :: int
  fd_capacity :: int
  fd_utilization :: real

record max_flow_result =
  mf_graph :: digraph
  max_flow_value :: int
  flow_dict :: "node \<Rightarrow> node \<Rightarrow> int"
  flow_details :: "flow_detail list"
  bottleneck_edges :: "flow_detail list"

record cost_detail =
  cd_from :: string
  cd_to :: string
  cd_flow :: real
  cd_unit_cost :: real
  cd_total_cost :: real
  cd_capacity :: real
  cd_utilization :: real

record min_cost_flow_result =
  mcf_min_cost :: real
  mcf_cost_details :: "cost_detail list"

record shortest_path_result =
  sp_graph :: ugraph
  sp_path :: "city list"
  shortest_distance :: int
  sp_path_details :: "path_detail list"

text \<open>
  \<^verbatim>\<open>self.results\<close> and \<^verbatim>\<open>self.graphs\<close>: dictionaries with at most the keys the solve
  methods store; an absent key is \<open>None\<close>.
\<close>

record nf_demo =
  r_max_flow :: "max_flow_result option"
  r_min_cost_flow :: "min_cost_flow_result option"
  r_shortest_path :: "shortest_path_result option"
  g_max_flow :: "digraph option"
  g_shortest_path :: "ugraph option"

definition nf_init :: nf_demo where
  "nf_init = \<lparr> r_max_flow = None, r_min_cost_flow = None, r_shortest_path = None,
               g_max_flow = None, g_shortest_path = None \<rparr>"

definition results_empty :: "nf_demo \<Rightarrow> bool" where
  "results_empty st = (r_max_flow st = None \<and> r_min_cost_flow st = None \<and> r_shortest_path st = None)"

definition graphs_empty :: "nf_demo \<Rightarrow> bool" where
  "graphs_empty st = (g_max_flow st = None \<and> g_shortest_path st = None)"

text \<open>
  Lines 96-111 of \<^verbatim>\<open>solve_max_flow_problem\<close>: for every edge that carries flow, its
  capacity and \<^verbatim>\<open>utilization = flow / capacity * 100\<close>. The flow dictionary of NetworkX
  has one entry per edge of the graph.
\<close>

definition flow_detail_of ::
  "digraph \<Rightarrow> (node \<Rightarrow> node \<Rightarrow> int) \<Rightarrow> node \<times> node \<times> int \<Rightarrow> py_error + flow_detail list" where
  "flow_detail_of g f e =
     (let flow = f (fst e) (fst (snd e)) in
      if flow > 0 then
        bind_err (capacity_of g (fst e) (fst (snd e))) (\<lambda>capacity.
        bind_err (py_div (of_int flow) (of_int capacity)) (\<lambda>q.
          Inr [\<lparr> fd_from = fst e, fd_to = fst (snd e), fd_flow = flow,
                  fd_capacity = capacity, fd_utilization = q * 100 \<rparr>]))
      else Inr [])"

definition solve_max_flow_problem ::
  "networkx \<Rightarrow> nf_demo \<Rightarrow> py_error + (nf_demo \<times> event list \<times> int \<times> (node \<Rightarrow> node \<Rightarrow> int))" where
  "solve_max_flow_problem nx st =
     (let g = max_flow_graph;
          r = maximum_flow nx g nS nT in
      bind_err (sequence_err (map (flow_detail_of g (snd r)) g)) (\<lambda>dss.
      let details = concat dss;
          bottlenecks = filter (\<lambda>d. fd_utilization d \<ge> 99.9) details in
        Inr (st\<lparr> r_max_flow := Some \<lparr> mf_graph = g, max_flow_value = fst r, flow_dict = snd r,
                                      flow_details = details, bottleneck_edges = bottlenecks \<rparr>,
                 g_max_flow := Some g \<rparr>,
             [Print ''maximum flow problem'', SolverCall ''nx.maximum_flow'',
              PrintValue ''maximum flow'' (of_int (fst r))],
             fst r, snd r)))"

text \<open>
  \<^verbatim>\<open>solve_min_cost_flow_problem\<close>: the transport data of lines 162-169, one bounded
  variable per route, supply and demand constraints, and for every route that carries
  flow its cost and \<^verbatim>\<open>flow / capacity * 100\<close> (lines 213-225).
\<close>

definition transport_data :: "(string \<times> string \<times> real \<times> real) list" where
  "transport_data =
     [(''warehouse 1'', ''customer A'', 4, 60),
      (''warehouse 1'', ''customer B'', 6, 70),
      (''warehouse 1'', ''customer C'', 8, 50),
      (''warehouse 2'', ''customer A'', 5, 50),
      (''warehouse 2'', ''customer B'', 3, 80),
      (''warehouse 2'', ''customer C'', 7, 60)]"

definition mcf_supply :: "(string \<times> real) list" where
  "mcf_supply = [(''warehouse 1'', 100), (''warehouse 2'', 150)]"

definition mcf_demand :: "(string \<times> real) list" where
  "mcf_demand = [(''customer A'', 80), (''customer B'', 90), (''customer C'', 80)]"

record 'v bounded_lp = "'v lp_problem" +
  p_upper :: "('v \<times> real) list"

definition min_cost_flow_problem :: "(string \<times> string) bounded_lp" where
  "min_cost_flow_problem =
     \<lparr> p_sense = LpMinimize,
       p_vars = map (\<lambda>(a, b, c, u). (a, b)) transport_data,
       p_objective = map (\<lambda>(a, b, c, u). (c, (a, b))) transport_data,
       p_constraints =
         map (\<lambda>(w, s). \<lparr> c_lhs = map (\<lambda>(a, b, c, u). (1, (a, b)))
                                    (filter (\<lambda>(a, b, c, u). a = w) transport_data),
                          c_op = LE, c_rhs = s \<rparr>) mcf_supply @
         map (\<lambda>(k, d). \<lparr> c_lhs = map (\<lambda>(a, b, c, u). (1, (a, b)))
                                    (filter (\<lambda>(a, b, c, u). b = k) transport_data),
                          c_op = GE, c_rhs = d \<rparr>) mcf_demand,
       p_upper = map (\<lambda>(a, b, c, u). ((a, b), u)) transport_data \<rparr>"

definition cost_detail_of ::
  "(string \<times> string \<Rightarrow> real) \<Rightarrow> string \<times> string \<times> real \<times> real \<Rightarrow> py_error + cost_detail list" where
  "cost_detail_of val e =
     (case e of (a, b, c, u) \<Rightarrow>
        if val (a, b) > 0 then
          bind_err (py_div (val (a, b)) u) (\<lambda>q.
            Inr [\<lparr> cd_from = a, cd_to = b, cd_flow = val (a, b), cd_unit_cost = c,
                    cd_total_cost = val (a, b) * c, cd_capacity = u,
                    cd_utilization = q * 100 \<rparr>])
        else Inr [])"

definition solve_min_cost_flow_problem ::
  "((string \<times> string) bounded_lp \<Rightarrow> string \<times> string \<Rightarrow> real) \<Rightarrow> nf_demo
     \<Rightarrow> py_error + (nf_demo \<times> event list \<times> real)" where
  "solve_min_cost_flow_problem solver st =
     (let val = solver min_cost_flow_problem;
          min_cost = lp_value val (p_objective min_cost_flow_problem) in
      bind_err (sequence_err (map (cost_detail_of val) transport_data)) (\<lambda>dss.
        Inr (st\<lparr> r_min_cost_flow := Some \<lparr> mcf_min_cost = min_cost,
                                           mcf_cost_details = concat dss \<rparr> \<rparr>,
             [Print ''minimum cost flow problem'', SolverCall ''CBC'',
              PrintValue ''minimum cost'' min_cost],
             min_cost)))"

text \<open>
  \<^verbatim>\<open>solve_shortest_path_problem\<close>: the two NetworkX queries of lines 281-283, the loop
  over the path, and the connectivity figures of lines 307-311.
\<close>

definition solve_shortest_path_problem ::
  "networkx \<Rightarrow> nf_demo \<Rightarrow> py_error + (nf_demo \<times> event list \<times> city list \<times> int)" where
  "solve_shortest_path_problem nx st =
     (let g = road_graph;
          p = shortest_path nx g Origin Dest;
          d = shortest_path_length nx g Origin Dest in
      bind_err (path_details g p 0) (\<lambda>(details, total_distance).
        Inr (st\<lparr> r_shortest_path := Some \<lparr> sp_graph = g, sp_path = p, shortest_distance = d,
                                           sp_path_details = details \<rparr>,
                 g_shortest_path := Some g \<rparr>,
             [Print ''shortest path problem'', SolverCall ''nx.shortest_path'',
              SolverCall ''nx.shortest_path_length'',
              PrintValue ''shortest distance'' (of_int d),
              PrintValue ''accumulated distance'' (of_int total_distance),
              GraphMetric ''all_pairs_shortest_path_length'', GraphMetric ''diameter'',
              GraphMetric ''average_shortest_path_length''],
             p, d)))"

text \<open>
  \<^verbatim>\<open>visualize_results\<close>: the guard of lines 332-334; for the maximum-flow network the
  line width \<^verbatim>\<open>flow / capacity\<close> of every edge that carries flow (line 376) and the
  utilisation of every edge, guarded against a zero capacity (line 414); the normalised
  metrics of line 553; then the one \<^verbatim>\<open>plt.savefig\<close>.
\<close>

definition utilization_rate :: "int \<Rightarrow> int \<Rightarrow> real" where
  "utilization_rate flow capacity =
     (if capacity > 0 then (of_int flow / of_int capacity) * 100 else 0)"

definition edge_width :: "(node \<Rightarrow> node \<Rightarrow> int) \<Rightarrow> node \<times> node \<times> int \<Rightarrow> py_error + real" where
  "edge_width f e =
     (let flow = f (fst e) (fst (snd e)) in
      if flow > 0 then
        bind_err (py_div (of_int flow) (of_int (snd (snd e)))) (\<lambda>q. Inr (max 2 (q * 8)))
      else Inr 1)"

definition utilization_rates :: "max_flow_result \<Rightarrow> py_error + real list" where
  "utilization_rates m =
     bind_err (sequence_err (map (edge_width (flow_dict m)) (mf_graph m))) (\<lambda>widths.
       Inr (map (\<lambda>e. utilization_rate (flow_dict m (fst e) (fst (snd e))) (snd (snd e)))
              (mf_graph m)))"

definition metric_values :: "nf_demo \<Rightarrow> real list" where
  "metric_values st =
     (case r_max_flow st of None \<Rightarrow> [] | Some m \<Rightarrow> [of_int (max_flow_value m)]) @
     (case r_min_cost_flow st of None \<Rightarrow> [] | Some c \<Rightarrow> [mcf_min_cost c]) @
     (case r_shortest_path st of None \<Rightarrow> [] | Some s \<Rightarrow> [of_int (shortest_distance s)])"

definition normalized_values :: "real list \<Rightarrow> py_error + real list" where
  "normalized_values vs =
     (case vs of
        [] \<Rightarrow> Inr []
      | v # rest \<Rightarrow>
          bind_err (sequence_err (map (\<lambda>x. py_div x (fold max rest v)) vs)) (\<lambda>qs.
            Inr (map (\<lambda>q. q * 100) qs)))"

definition nf_visualize_results :: "nf_demo \<Rightarrow> py_error + (nf_demo \<times> event list)" where
  "nf_visualize_results st =
     (if results_empty st then Inr (st, [Warning ''run a solve method first''])
      else
        bind_err (case r_max_flow st of None \<Rightarrow> Inr [] | Some m \<Rightarrow> utilization_rates m) (\<lambda>rates.
        bind_err (normalized_values (metric_values st)) (\<lambda>norm.
          Inr (st, [Print ''generating charts''] @
                   (case r_max_flow st of
                      None \<Rightarrow> []
                    | Some m \<Rightarrow> [GraphMetric ''degree_centrality'',
                                 GraphMetric ''betweenness_centrality'']) @
                   [SaveFig ''network_flow_results.png'', Print ''chart saved'']))))"

text \<open>
  \<^verbatim>\<open>network_analysis\<close>: the guard of lines 615-617 reads \<^verbatim>\<open>self.graphs\<close>; then the
  structural figures of every stored graph, with diameter and average path length for a
  connected road graph.
\<close>

definition network_analysis :: "networkx \<Rightarrow> nf_demo \<Rightarrow> py_error + (nf_demo \<times> event list)" where
  "network_analysis nx st =
     (if graphs_empty st then Inr (st, [Warning ''run a solve method first''])
      else
        Inr (st, [Print ''network structure analysis''] @
                 (case g_max_flow st of
                    None \<Rightarrow> []
                  | Some g \<Rightarrow> [GraphMetric ''number_of_nodes'', GraphMetric ''number_of_edges'',
                               GraphMetric ''density'', GraphMetric ''is_connected'']) @
                 (case g_shortest_path st of
                    None \<Rightarrow> []
                  | Some g \<Rightarrow> [GraphMetric ''number_of_nodes'', GraphMetric ''number_of_edges'',
                               GraphMetric ''density'', GraphMetric ''is_connected''] @
                              (if is_connected nx g
                               then [GraphMetric ''diameter'',
                                     GraphMetric ''average_shortest_path_length'']
                               else []))))"

text \<open>
  \<^verbatim>\<open>generate_report\<close>: the guard of lines 641-643, then the figures of every stored
  result; the average cost of line 669 divides by the total flow.
\<close>

definition nf_generate_report :: "nf_demo \<Rightarrow> py_error + (nf_demo \<times> event list)" where
  "nf_generate_report st =
     (if results_empty st then Inr (st, [Warning ''run a solve method first''])
      else
        bind_err (case r_min_cost_flow st of
                    None \<Rightarrow> Inr []
                  | Some c \<Rightarrow>
                      if mcf_cost_details c = [] then Inr [PrintValue ''minimum cost'' (mcf_min_cost c)]
                      else bind_err (py_div (mcf_min_cost c)
                                       (sum_list (map cd_flow (mcf_cost_details c)))) (\<lambda>avg.
                             Inr [PrintValue ''minimum cost'' (mcf_min_cost c),
                                  PrintValue ''average cost'' avg])) (\<lambda>mcf_lines.
          Inr (st, [Print ''report''] @
                   (case r_max_flow st of
                      None \<Rightarrow> []
                    | Some m \<Rightarrow> [PrintValue ''maximum flow'' (of_int (max_flow_value m))]) @
                   mcf_lines @
                   (case r_shortest_path st of
                      None \<Rightarrow> []
                    | Some s \<Rightarrow> [PrintValue ''shortest distance'' (of_int (shortest_distance s))]))))"

text \<open>\<^verbatim>\<open>main\<close> (lines 693-722): the three solves, then charts, analysis and report.\<close>

definition nf_main ::
  "networkx \<Rightarrow> ((string \<times> string) bounded_lp \<Rightarrow> string \<times> string \<Rightarrow> real)
     \<Rightarrow> py_error + event list" where
  "nf_main nx solver =
     bind_err (solve_max_flow_problem nx nf_init) (\<lambda>(st1, es1, r1).
     bind_err (solve_min_cost_flow_problem solver st1) (\<lambda>(st2, es2, r2).
     bind_err (solve_shortest_path_problem nx st2) (\<lambda>(st3, es3, r3).
     bind_err (nf_visualize_results st3) (\<lambda>(st4, es4).
     bind_err (network_analysis nx st4) (\<lambda>(st5, es5).
     bind_err (nf_generate_report st5) (\<lambda>(st6, es6).
       Inr (es1 @ es2 @ es3 @ es4 @ es5 @ es6 @ [Print ''demo finished''])))))))"

section \<open>transportation_problem_demo.py: the demo object and its methods\<close>

record route_detail =
  rd_from :: string
  rd_to :: string
  rd_quantity :: real
  rd_unit_cost :: real
  rd_total_cost :: real

record basic_result =
  b_scenario :: scenario
  b_original_warehouses :: "string list"
  b_original_demand :: "int list"
  b_solution_matrix :: "real list list"
  b_min_cost :: real
  b_route_details :: "route_detail list"

record multi_route =
  mr_factory :: string
  mr_product :: string
  mr_market :: string
  mr_quantity :: real
  mr_unit_cost :: real
  mr_total_cost :: real

record multi_result =
  m_min_cost :: real
  m_route_details :: "multi_route list"

text \<open>\<^verbatim>\<open>self.results\<close> with its two possible keys.\<close>

record tp_demo =
  basic :: "basic_result option"
  multi_product :: "multi_result option"

definition tp_init :: tp_demo where
  "tp_init = \<lparr> basic = None, multi_product = None \<rparr>"

text \<open>
  Lines 153-168: one entry per route that carries a positive quantity. The indices are
  those of the variables, for which the model construction has read the same cells.
\<close>

definition route_detail_of ::
  "scenario \<Rightarrow> (nat \<times> nat \<Rightarrow> real) \<Rightarrow> nat \<times> nat \<Rightarrow> py_error + route_detail list" where
  "route_detail_of s val ij =
     (if val ij > 0 then
        bind_err (cost_at (cost_matrix s) ij) (\<lambda>c.
        bind_err (py_index (factories s) (fst ij)) (\<lambda>f.
        bind_err (py_index (warehouses s) (snd ij)) (\<lambda>w.
          Inr [\<lparr> rd_from = f, rd_to = w, rd_quantity = val ij, rd_unit_cost = c,
                  rd_total_cost = val ij * c \<rparr>])))
      else Inr [])"

text \<open>
  \<^verbatim>\<open>solve_basic_transportation\<close>, on the scenario given (the script runs it on
  \<open>basic_scenario\<close>); the CBC solver is the parameter.
\<close>

definition solve_basic_transportation_on ::
  "scenario \<Rightarrow> ((nat \<times> nat) lp_problem \<Rightarrow> nat \<times> nat \<Rightarrow> real) \<Rightarrow> tp_demo
     \<Rightarrow> py_error + (tp_demo \<times> event list \<times> real list list \<times> real)" where
  "solve_basic_transportation_on sc solver st =
     bind_err (cost_table sc) (\<lambda>out0.
     bind_err (rebalance sc) (\<lambda>(s, out).
     bind_err (build_basic_model s) (\<lambda>prob.
     let val = solver prob;
         solution_matrix = map (\<lambda>i. map (\<lambda>j. val (i, j)) [0..<length (warehouses s)])
                             [0..<length (factories s)];
         min_transport_cost = lp_value val (p_objective prob) in
     bind_err (sequence_err (map (route_detail_of s val) (route_vars s))) (\<lambda>dss.
       Inr (st\<lparr> basic := Some \<lparr> b_scenario = s,
                                 b_original_warehouses = warehouses sc,
                                 b_original_demand = demand_qty sc,
                                 b_solution_matrix = solution_matrix,
                                 b_min_cost = min_transport_cost,
                                 b_route_details = concat dss \<rparr> \<rparr>,
            Print ''basic transportation problem'' # out0 @ out @
            [SolverCall ''CBC'', PrintValue ''minimum transport cost'' min_transport_cost],
            solution_matrix, min_transport_cost)))))"

definition solve_basic_transportation ::
  "((nat \<times> nat) lp_problem \<Rightarrow> nat \<times> nat \<Rightarrow> real) \<Rightarrow> tp_demo
     \<Rightarrow> py_error + (tp_demo \<times> event list \<times> real list list \<times> real)" where
  "solve_basic_transportation = solve_basic_transportation_on basic_scenario"

text \<open>
  \<^verbatim>\<open>solve_multi_product_transportation\<close> (lines 200-304): two factories, two products,
  three markets; supply is an upper bound and demand a lower bound here. All indices
  range over the fixed data.
\<close>

definition multi_factories :: "string list" where
  "multi_factories = [''factory X'', ''factory Y'']"

definition multi_products :: "string list" where
  "multi_products = [''product P1'', ''product P2'']"

definition multi_markets :: "string list" where
  "multi_markets = [''market M1'', ''market M2'', ''market M3'']"

definition supply_matrix :: "real list list" where
  "supply_matrix = [[200, 150], [180, 220]]"

definition demand_matrix :: "real list list" where
  "demand_matrix = [[120, 100], [140, 130], [120, 140]]"

definition cost_tensor :: "real list list list" where
  "cost_tensor = [[[5, 7, 6], [6, 8, 7]], [[8, 6, 9], [7, 5, 8]]]"

definition multi_vars :: "(nat \<times> nat \<times> nat) list" where
  "multi_vars = concat (map (\<lambda>i. concat (map (\<lambda>p. map (\<lambda>j. (i, p, j)) [0, 1, 2]) [0, 1])) [0, 1])"

definition multi_problem :: "(nat \<times> nat \<times> nat) lp_problem" where
  "multi_problem =
     \<lparr> p_sense = LpMinimize,
       p_vars = multi_vars,
       p_objective = map (\<lambda>(i, p, j). (cost_tensor ! i ! p ! j, (i, p, j))) multi_vars,
       p_constraints =
         concat (map (\<lambda>i. map (\<lambda>p. \<lparr> c_lhs = map (\<lambda>j. (1, (i, p, j))) [0, 1, 2],
                                       c_op = LE, c_rhs = supply_matrix ! i ! p \<rparr>) [0, 1]) [0, 1]) @
         concat (map (\<lambda>j. map (\<lambda>p. \<lparr> c_lhs = map (\<lambda>i. (1, (i, p, j))) [0, 1],
                                       c_op = GE, c_rhs = demand_matrix ! j ! p \<rparr>) [0, 1]) [0, 1, 2]) \<rparr>"

definition multi_route_of :: "(nat \<times> nat \<times> nat \<Rightarrow> real) \<Rightarrow> nat \<times> nat \<times> nat \<Rightarrow> multi_route list" where
  "multi_route_of val v =
     (case v of (i, p, j) \<Rightarrow>
        if val v > 0 then
          [\<lparr> mr_factory = multi_factories ! i, mr_product = multi_products ! p,
             mr_market = multi_markets ! j, mr_quantity = val v,
             mr_unit_cost = cost_tensor ! i ! p ! j,
             mr_total_cost = val v * (cost_tensor ! i ! p ! j) \<rparr>]
        else [])"

definition solve_multi_product_transportation ::
  "((nat \<times> nat \<times> nat) lp_problem \<Rightarrow> nat \<times> nat \<times> nat \<Rightarrow> real) \<Rightarrow> tp_demo
     \<Rightarrow> py_error + (tp_demo \<times> event list \<times> real)" where
  "solve_multi_product_transportation solver st =
     (let val = solver multi_problem;
          min_cost = lp_value val (p_objective multi_problem) in
      Inr (st\<lparr> multi_product := Some \<lparr> m_min_cost = min_cost,
                                       m_route_details = concat (map (multi_route_of val) multi_vars) \<rparr> \<rparr>,
           [Print ''multi-product transportation problem'', SolverCall ''CBC'',
            PrintValue ''minimum transport cost'' min_cost],
           min_cost))"

text \<open>
  \<^verbatim>\<open>visualize_results\<close>: the guard of lines 311-313 and the one \<^verbatim>\<open>plt.savefig\<close> of line
  530; what is drawn in between is the plotting library's.
\<close>

definition tp_visualize_results :: "tp_demo \<Rightarrow> py_error + (tp_demo \<times> event list)" where
  "tp_visualize_results st =
     (if basic st = None \<and> multi_product st = None
      then Inr (st, [Warning ''run a solve method first''])
      else Inr (st, [Print ''generating charts'', SaveFig ''transportation_results.png'',
                     Print ''chart saved'']))"

text \<open>
  \<^verbatim>\<open>cost_sensitivity_analysis\<close> (lines 535-562): for the first three routes and each
  percentage, the estimate \<^verbatim>\<open>base_cost + route['total_cost'] * cost_change / 100\<close>. No
  model is built and no solver is called.
\<close>

definition estimated_costs :: "real \<Rightarrow> route_detail \<Rightarrow> (real \<times> real) list" where
  "estimated_costs base_cost route =
     map (\<lambda>cost_change.
            (base_cost + rd_total_cost route * cost_change / 100,
             rd_total_cost route * cost_change / 100))
       [-20, -10, 10, 20]"

definition cost_sensitivity_analysis :: "tp_demo \<Rightarrow> py_error + (tp_demo \<times> event list)" where
  "cost_sensitivity_analysis st =
     (case basic st of
        None \<Rightarrow> Inr (st, [Warning ''run the basic transportation solve first''])
      | Some b \<Rightarrow>
          Inr (st, Print ''transport cost sensitivity analysis'' #
                   concat (map (\<lambda>route.
                             Print ''route'' #
                             concat (map (\<lambda>(new_total_cost, estimated_cost_change).
                                       [PrintValue ''estimated total cost'' new_total_cost,
                                        PrintValue ''change'' estimated_cost_change])
                                     (estimated_costs (b_min_cost b) route)))
                           (take 3 (b_route_details b)))))"

text \<open>
  \<^verbatim>\<open>generate_report\<close>: the guard of lines 569-571; the average cost of line 588 divides
  by the total quantity shipped, and line 620 divides every product's cost by the
  minimum cost.
\<close>

definition product_costs :: "multi_route list \<Rightarrow> (string \<times> real) list" where
  "product_costs ds =
     map (\<lambda>p. (p, sum_list (map mr_total_cost (filter (\<lambda>d. mr_product d = p) ds))))
       (rev (remdups (rev (map mr_product ds))))"

definition tp_generate_report :: "tp_demo \<Rightarrow> py_error + (tp_demo \<times> event list)" where
  "tp_generate_report st =
     (if basic st = None \<and> multi_product st = None
      then Inr (st, [Warning ''run a solve method first''])
      else
        bind_err (case basic st of
                    None \<Rightarrow> Inr []
                  | Some b \<Rightarrow>
                      bind_err (py_div (b_min_cost b)
                                  (sum_list (map rd_quantity (b_route_details b)))) (\<lambda>avg.
                        Inr [PrintValue ''minimum transport cost'' (b_min_cost b),
                             PrintValue ''average transport cost'' avg])) (\<lambda>basic_lines.
        bind_err (case multi_product st of
                    None \<Rightarrow> Inr []
                  | Some m \<Rightarrow>
                      bind_err (sequence_err (map (\<lambda>(p, c). py_div c (m_min_cost m))
                                                (product_costs (m_route_details m)))) (\<lambda>shares.
                        Inr (PrintValue ''minimum transport cost'' (m_min_cost m) #
                             map (\<lambda>q. PrintValue ''share percent'' (q * 100)) shares))) (\<lambda>multi_lines.
          Inr (st, Print ''report'' # basic_lines @ multi_lines))))"

text \<open>\<^verbatim>\<open>main\<close> (lines 639-664): the two solves, charts, sensitivity analysis, report.\<close>

definition tp_main ::
  "((nat \<times> nat) lp_problem \<Rightarrow> nat \<times> nat \<Rightarrow> real)
     \<Rightarrow> ((nat \<times> nat \<times> nat) lp_problem \<Rightarrow> nat \<times> nat \<times> nat \<Rightarrow> real)
     \<Rightarrow> py_error + event list" where
  "tp_main solver solver3 =
     bind_err (solve_basic_transportation solver tp_init) (\<lambda>(st1, es1, r1).
     bind_err (solve_multi_product_transportation solver3 st1) (\<lambda>(st2, es2, r2).
     bind_err (tp_visualize_results st2) (\<lambda>(st3, es3).
     bind_err (cost_sensitivity_analysis st3) (\<lambda>(st4, es4).
     bind_err (tp_generate_report st4) (\<lambda>(st5, es5).
       Inr (es1 @ es2 @ es3 @ es4 @ es5 @ [Print ''demo finished'']))))))"

section \<open>Instances the statements refer to\<close>

text \<open>The model that lines 110-131 build from the data of the script.\<close>

definition basic_model :: "(nat \<times> nat) lp_problem" where
  "basic_model =
       \<lparr>p_sense = LpMinimize,
        p_vars =
          [(0, 0), (0, 1), (0, 2), (0, 3), (1, 0), (1, 1), (1, 2), (1, 3),
           (2, 0), (2, 1), (2, 2), (2, 3)],
        p_objective =
          [(8, 0, 0), (6, 0, 1), (10, 0, 2), (9, 0, 3), (9, 1, 0),
           (12, 1, 1), (13, 1, 2), (7, 1, 3), (14, 2, 0), (9, 2, 1),
           (16, 2, 2), (5, 2, 3)],
        p_constraints =
          [\<lparr>c_lhs = [(1, 0, 0), (1, 0, 1), (1, 0, 2), (1, 0, 3)], c_op = EQ, c_rhs = 300\<rparr>,
           \<lparr>c_lhs = [(1, 1, 0), (1, 1, 1), (1, 1, 2), (1, 1, 3)], c_op = EQ, c_rhs = 400\<rparr>,
           \<lparr>c_lhs = [(1, 2, 0), (1, 2, 1), (1, 2, 2), (1, 2, 3)], c_op = EQ, c_rhs = 500\<rparr>,
           \<lparr>c_lhs = [(1, 0, 0), (1, 1, 0), (1, 2, 0)], c_op = EQ, c_rhs = 250\<rparr>,
           \<lparr>c_lhs = [(1, 0, 1), (1, 1, 1), (1, 2, 1)], c_op = EQ, c_rhs = 350\<rparr>,
           \<lparr>c_lhs = [(1, 0, 2), (1, 1, 2), (1, 2, 2)], c_op = EQ, c_rhs = 400\<rparr>,
           \<lparr>c_lhs = [(1, 0, 3), (1, 1, 3), (1, 2, 3)], c_op = EQ, c_rhs = 200\<rparr>]\<rparr>"


definition negative_scenario :: scenario where
  "negative_scenario = basic_scenario \<lparr> supply_qty := [- 300, 1000, 500] \<rparr>"

definition short_matrix_scenario :: scenario where
  "short_matrix_scenario = basic_scenario \<lparr> cost_matrix := [[8, 6, 10, 9], [9, 12, 13, 7]] \<rparr>"

text \<open>A NetworkX stand-in for states in which it is never consulted.\<close>

definition idle_nx :: networkx where
  "idle_nx = \<lparr> maximum_flow = (\<lambda>g s t. (0, \<lambda>u v. 0)), shortest_path = (\<lambda>g s t. []),
               shortest_path_length = (\<lambda>g s t. 0), is_connected = (\<lambda>g. False) \<rparr>"

definition production_model :: "nat lp_problem" where
  "production_model =
     \<lparr> p_sense = LpMaximize, p_vars = [0, 1, 2],
       p_objective = [(40, 0), (30, 1), (50, 2)],
       p_constraints = [\<lparr> c_lhs = [(2, 0), (1, 1), (3, 2)], c_op = LE, c_rhs = 100 \<rparr>,
                        \<lparr> c_lhs = [(1, 0), (2, 1), (1, 2)], c_op = LE, c_rhs = 80 \<rparr>] \<rparr>"

definition solved_result :: "(nat lp_problem \<Rightarrow> nat \<Rightarrow> real) \<Rightarrow> lp_result" where
  "solved_result solver =
     (let val = solver production_model in
      \<lparr> products = [''product A'', ''product B'', ''product C''],
        solution = [val 0, val 1, val 2], profit = 0,
        max_profit = 40 * val 0 + 30 * val 1 + 50 * val 2,
        labor_used = 2 * val 0 + 1 * val 1 + 3 * val 2,
        material_used = 1 * val 0 + 2 * val 1 + 1 * val 2,
        labor_available = 100, material_available = 80,
        labor_req = [2, 1, 3], material_req = [1, 2, 1] \<rparr>)"

definition solved_state :: "(nat lp_problem \<Rightarrow> nat \<Rightarrow> real) \<Rightarrow> lp_demo" where
  "solved_state solver = \<lparr> heap = [[40, 30, 50]], lp_results = Some (solved_result solver) \<rparr>"

definition variant_profits :: "real list \<Rightarrow> nat \<Rightarrow> real \<Rightarrow> real list" where
  "variant_profits base i change = base[i := base ! i * (1 + change / 100)]"

definition variant_model :: "lp_result \<Rightarrow> real list \<Rightarrow> nat \<Rightarrow> real \<Rightarrow> nat lp_problem" where
  "variant_model r base i change =
     \<lparr> p_sense = LpMaximize, p_vars = [0, 1, 2],
       p_objective = map (\<lambda>j. (variant_profits base i change ! j, j)) [0, 1, 2],
       p_constraints =
         [\<lparr> c_lhs = map (\<lambda>j. (labor_req r ! j, j)) [0, 1, 2], c_op = LE,
             c_rhs = labor_available r \<rparr>,
          \<lparr> c_lhs = map (\<lambda>j. (material_req r ! j, j)) [0, 1, 2], c_op = LE,
             c_rhs = material_available r \<rparr>] \<rparr>"

definition variant_events ::
  "(nat lp_problem \<Rightarrow> nat \<Rightarrow> real) \<Rightarrow> lp_result \<Rightarrow> real list \<Rightarrow> nat \<Rightarrow> real \<Rightarrow> event list" where
  "variant_events solver r base i change =
     (let prob = variant_model r base i change;
          new_max_profit = lp_value (solver prob) (p_objective prob) in
      [SolverCall ''CBC'', PrintValue ''total profit'' new_max_profit,
       PrintValue ''change'' (new_max_profit - max_profit r)])"

definition sensitivity_copies :: "real list \<Rightarrow> nat \<Rightarrow> real list list" where
  "sensitivity_copies base n =
     concat (map (\<lambda>i. map (variant_profits base i) [-20, -10, 10, 20]) [0..<n])"

definition sensitivity_events ::
  "(nat lp_problem \<Rightarrow> nat \<Rightarrow> real) \<Rightarrow> lp_result \<Rightarrow> real list \<Rightarrow> event list" where
  "sensitivity_events solver r base =
     Print ''sensitivity analysis'' #
     concat (map (\<lambda>i. Print ''effect of a profit change of this product'' #
                      concat (map (variant_events solver r base i) [-20, -10, 10, 20]))
               [0..<length (products r)])"

definition solve_events :: "(nat lp_problem \<Rightarrow> nat \<Rightarrow> real) \<Rightarrow> event list" where
  "solve_events solver =
     [Print ''production planning'', SolverCall ''CBC'',
      PrintValue ''max profit'' (max_profit (solved_result solver)),
      PrintValue ''labor utilisation percent''
        (labor_used (solved_result solver) / 100 * 100),
      PrintValue ''material utilisation percent''
        (material_used (solved_result solver) / 80 * 100)]"

definition report_events :: "(nat lp_problem \<Rightarrow> nat \<Rightarrow> real) \<Rightarrow> event list" where
  "report_events solver =
     [Print ''report'',
      PrintValue ''max profit'' (max_profit (solved_result solver)),
      PrintValue ''labor utilisation percent''
        (labor_used (solved_result solver) / 100 * 100),
      PrintValue ''material utilisation percent''
        (material_used (solved_result solver) / 80 * 100)]"

definition reference_solver :: "nat lp_problem \<Rightarrow> nat \<Rightarrow> real" where
  "reference_solver p v = (if v = 0 then 40 else if v = 1 then 20 else 0)"

definition optimal_plan :: "nat \<times> nat \<Rightarrow> real" where
  "optimal_plan ij =
     (if ij = (0, 1) then 50 else if ij = (0, 2) then 250
      else if ij = (1, 0) then 250 else if ij = (1, 2) then 150
      else if ij = (2, 1) then 300 else if ij = (2, 3) then 200 else 0)"

definition shipped_routes :: "route_detail list" where
  "shipped_routes =
     [\<lparr> rd_from = ''factory A'', rd_to = ''warehouse 2'', rd_quantity = 50,
        rd_unit_cost = 6, rd_total_cost = 300 \<rparr>,
      \<lparr> rd_from = ''factory A'', rd_to = ''warehouse 3'', rd_quantity = 250,
        rd_unit_cost = 10, rd_total_cost = 2500 \<rparr>,
      \<lparr> rd_from = ''factory B'', rd_to = ''warehouse 1'', rd_quantity = 250,
        rd_unit_cost = 9, rd_total_cost = 2250 \<rparr>,
      \<lparr> rd_from = ''factory B'', rd_to = ''warehouse 3'', rd_quantity = 150,
        rd_unit_cost = 13, rd_total_cost = 1950 \<rparr>,
      \<lparr> rd_from = ''factory C'', rd_to = ''warehouse 2'', rd_quantity = 300,
        rd_unit_cost = 9, rd_total_cost = 2700 \<rparr>,
      \<lparr> rd_from = ''factory C'', rd_to = ''warehouse 4'', rd_quantity = 200,
        rd_unit_cost = 5, rd_total_cost = 1000 \<rparr>]"

definition shipped_state :: tp_demo where
  "shipped_state =
     \<lparr> basic = Some \<lparr> b_scenario = basic_scenario,
                      b_original_warehouses = warehouses basic_scenario,
                      b_original_demand = demand_qty basic_scenario,
                      b_solution_matrix = [[0, 50, 250, 0], [250, 0, 150, 0], [0, 300, 0, 200]],
                      b_min_cost = 10700,
                      b_route_details = shipped_routes \<rparr>,
       multi_product = None \<rparr>"

definition shipped_estimates :: "event list" where
  "shipped_estimates =
     [Print ''transport cost sensitivity analysis'',
      Print ''route'',
      PrintValue ''estimated total cost'' 10640, PrintValue ''change'' (- 60),
      PrintValue ''estimated total cost'' 10670, PrintValue ''change'' (- 30),
      PrintValue ''estimated total cost'' 10730, PrintValue ''change'' 30,
      PrintValue ''estimated total cost'' 10760, PrintValue ''change'' 60,
      Print ''route'',
      PrintValue ''estimated total cost'' 10200, PrintValue ''change'' (- 500),
      PrintValue ''estimated total cost'' 10450, PrintValue ''change'' (- 250),
      PrintValue ''estimated total cost'' 10950, PrintValue ''change'' 250,
      PrintValue ''estimated total cost'' 11200, PrintValue ''change'' 500,
      Print ''route'',
      PrintValue ''estimated total cost'' 10250, PrintValue ''change'' (- 450),
      PrintValue ''estimated total cost'' 10475, PrintValue ''change'' (- 225),
      PrintValue ''estimated total cost'' 10925, PrintValue ''change'' 225,
      PrintValue ''estimated total cost'' 11150, PrintValue ''change'' 450]"


section \<open>Auxiliary facts\<close>

lemma bind_err_Inr_iff:
  "bind_err r f = Inr y \<longleftrightarrow> (\<exists>v. r = Inr v \<and> f v = Inr y)"
  by (cases r) (simp_all add: bind_err_def)

lemma sequence_err_Inr:
  "sequence_err rs = Inr vs \<Longrightarrow> rs = map Inr vs"
  by (induction rs arbitrary: vs) (auto split: sum.splits)

lemma sequence_err_map_Inr: "sequence_err (map Inr vs) = Inr vs"
  by (induction vs) simp_all

lemma supply_constraint_op: "supply_constraint s i = Inr c \<Longrightarrow> c_op c = EQ"
  by (auto simp add: supply_constraint_def bind_err_Inr_iff)

lemma demand_constraint_op: "demand_constraint s j = Inr c \<Longrightarrow> c_op c = EQ"
  by (auto simp add: demand_constraint_def bind_err_Inr_iff)

lemma sequence_err_all:
  assumes "sequence_err (map f xs) = Inr vs" and "\<And>x v. f x = Inr v \<Longrightarrow> P v"
  shows "list_all P vs"
proof -
  have eq: "map f xs = map Inr vs"
    using assms(1) by (rule sequence_err_Inr)
  have "P (vs ! i)" if "i < length vs" for i
  proof -
    have "length xs = length vs"
      using eq by (metis length_map)
    with that have "f (xs ! i) = Inr (vs ! i)"
      using eq by (metis nth_map)
    then show ?thesis by (rule assms(2))
  qed
  then show ?thesis by (simp add: list_all_length)
qed

lemma bind_err_InrE:
  assumes "bind_err r f = Inr y"
  obtains v where "r = Inr v" and "f v = Inr y"
  using assms by (cases r) (simp_all add: bind_err_def)

lemma build_basic_model_Inr:
  assumes "build_basic_model s = Inr m"
  shows "\<exists>sc dc.
           sequence_err (map (supply_constraint s) [0..<length (factories s)]) = Inr sc \<and>
           sequence_err (map (demand_constraint s) [0..<length (warehouses s)]) = Inr dc \<and>
           p_constraints m = sc @ dc"
proof -
  note a = assms [unfolded build_basic_model_def]
  from a obtain obj where
    1: "bind_err (sequence_err (map (supply_constraint s) [0..<length (factories s)])) (\<lambda>sc.
        bind_err (sequence_err (map (demand_constraint s) [0..<length (warehouses s)])) (\<lambda>dc.
          Inr \<lparr> p_sense = LpMinimize, p_vars = route_vars s,
                p_objective = obj, p_constraints = sc @ dc \<rparr>)) = Inr m"
    by (rule bind_err_InrE)
  from 1 obtain sc where
    sc: "sequence_err (map (supply_constraint s) [0..<length (factories s)]) = Inr sc" and
    2: "bind_err (sequence_err (map (demand_constraint s) [0..<length (warehouses s)])) (\<lambda>dc.
          Inr \<lparr> p_sense = LpMinimize, p_vars = route_vars s,
                p_objective = obj, p_constraints = sc @ dc \<rparr>) = Inr m"
    by (rule bind_err_InrE)
  from 2 obtain dc where
    dc: "sequence_err (map (demand_constraint s) [0..<length (warehouses s)]) = Inr dc" and
    m: "Inr \<lparr> p_sense = LpMinimize, p_vars = route_vars s,
                p_objective = obj, p_constraints = sc @ dc \<rparr> = (Inr m :: py_error + (nat \<times> nat) lp_problem)"
    by (rule bind_err_InrE)
  from m have "m = \<lparr> p_sense = LpMinimize, p_vars = route_vars s,
                p_objective = obj, p_constraints = sc @ dc \<rparr>"
    by (simp only: sum.inject)
  then have "p_constraints m = sc @ dc" by simp
  with sc dc show ?thesis by blast
qed

lemma build_basic_model_constraints:
  assumes "build_basic_model s = Inr m"
  shows "list_all (\<lambda>c. c_op c = EQ) (p_constraints m)"
proof -
  from build_basic_model_Inr [OF assms] obtain sc dc where
    sc: "sequence_err (map (supply_constraint s) [0..<length (factories s)]) = Inr sc" and
    dc: "sequence_err (map (demand_constraint s) [0..<length (warehouses s)]) = Inr dc" and
    m: "p_constraints m = sc @ dc"
    by blast
  have "list_all (\<lambda>c. c_op c = EQ) sc"
    by (rule sequence_err_all [OF sc]) (rule supply_constraint_op)
  moreover have "list_all (\<lambda>c. c_op c = EQ) dc"
    by (rule sequence_err_all [OF dc]) (rule demand_constraint_op)
  ultimately show ?thesis by (simp add: m)
qed

lemma basic_balanced:
  "sum_list (supply_qty basic_scenario) = 1200 \<and> sum_list (demand_qty basic_scenario) = 1200
   \<and> rebalance basic_scenario = Inr (basic_scenario, [])"
  by (simp add: basic_scenario_def rebalance_def)

lemma upt_3: "[0..<3] = [0, 1, 2]"
  by (simp add: upt_rec)

lemma upt_4: "[0..<4] = [0, 1, 2, 3]"
  by (simp add: upt_rec)

lemma route_vars_basic: "route_vars basic_scenario =
   [(0, 0), (0, 1), (0, 2), (0, 3), (1, 0), (1, 1), (1, 2), (1, 3),
           (2, 0), (2, 1), (2, 2), (2, 3)]"
  by (simp add: route_vars_def basic_scenario_def upt_3 upt_4)

lemma basic_model_built: "build_basic_model basic_scenario = Inr basic_model"
  unfolding build_basic_model_def route_vars_basic
  by (simp add: basic_scenario_def upt_3 upt_4 cost_at_def basic_model_def
      py_index_def bind_err_def supply_constraint_def demand_constraint_def)

lemma sequence_err_map_fun:
  assumes "sequence_err (map f xs) = Inr vs" and "\<And>x v. f x = Inr v \<Longrightarrow> g v = h x"
  shows "map g vs = map h xs"
proof -
  have eq: "map f xs = map Inr vs"
    using assms(1) by (rule sequence_err_Inr)
  then have len: "length xs = length vs"
    by (metis length_map)
  show ?thesis
  proof (rule nth_equalityI)
    show "length (map g vs) = length (map h xs)"
      using len by simp
  next
    fix i assume "i < length (map g vs)"
    then have i: "i < length vs" by simp
    with len eq have "f (xs ! i) = Inr (vs ! i)"
      by (metis nth_map)
    then have "g (vs ! i) = h (xs ! i)" by (rule assms(2))
    with i len show "map g vs ! i = map h xs ! i" by simp
  qed
qed

lemma sequence_err_total:
  assumes "\<And>x. x \<in> set xs \<Longrightarrow> f x = Inr (g x)"
  shows "sequence_err (map f xs) = Inr (map g xs)"
  using assms by (induction xs) simp_all

lemma supply_constraint_rhs:
  "supply_constraint s i = Inr c \<Longrightarrow> c_rhs c = of_int (supply_qty s ! i)"
  by (auto simp add: supply_constraint_def py_index_def elim!: bind_err_InrE split: if_splits)

lemma demand_constraint_rhs:
  "demand_constraint s j = Inr c \<Longrightarrow> c_rhs c = of_int (demand_qty s ! j)"
  by (auto simp add: demand_constraint_def py_index_def elim!: bind_err_InrE split: if_splits)

lemma build_basic_model_rhs:
  assumes "build_basic_model s = Inr m"
  shows "map c_rhs (p_constraints m) =
           map (\<lambda>i. of_int (supply_qty s ! i)) [0..<length (factories s)] @
           map (\<lambda>j. of_int (demand_qty s ! j)) [0..<length (warehouses s)]"
proof -
  from build_basic_model_Inr [OF assms] obtain sc dc where
    sc: "sequence_err (map (supply_constraint s) [0..<length (factories s)]) = Inr sc" and
    dc: "sequence_err (map (demand_constraint s) [0..<length (warehouses s)]) = Inr dc" and
    m: "p_constraints m = sc @ dc"
    by blast
  have "map c_rhs sc = map (\<lambda>i. of_int (supply_qty s ! i)) [0..<length (factories s)]"
    by (rule sequence_err_map_fun [OF sc]) (rule supply_constraint_rhs)
  moreover have "map c_rhs dc = map (\<lambda>j. of_int (demand_qty s ! j)) [0..<length (warehouses s)]"
    by (rule sequence_err_map_fun [OF dc]) (rule demand_constraint_rhs)
  ultimately show ?thesis by (simp add: m)
qed

lemma route_vars_bounds:
  "ij \<in> set (route_vars s) \<Longrightarrow> fst ij < length (factories s) \<and> snd ij < length (warehouses s)"
  by (auto simp add: route_vars_def)

lemma build_basic_model_total:
  assumes shape: "shape_ok s"
    and ls: "length (supply_qty s) = length (factories s)"
    and ld: "length (demand_qty s) = length (warehouses s)"
  shows "\<exists>m. build_basic_model s = Inr m"
proof -
  have cost: "bind_err (cost_at (cost_matrix s) ij) (\<lambda>c. Inr (c, ij)) =
                (Inr (cost_matrix s ! fst ij ! snd ij, ij) :: py_error + real \<times> nat \<times> nat)"
    if "ij \<in> set (route_vars s)" for ij
  proof -
    from route_vars_bounds [OF that] have i: "fst ij < length (cost_matrix s)"
      and j: "snd ij < length (warehouses s)"
      using shape by (simp_all add: shape_ok_def)
    from i shape have "length (cost_matrix s ! fst ij) = length (warehouses s)"
      by (simp add: shape_ok_def list_all_length)
    with i j show ?thesis
      by (simp add: cost_at_def py_index_def bind_err_def)
  qed
  have sup: "supply_constraint s i =
       Inr \<lparr> c_lhs = map (\<lambda>j. (1, (i, j))) [0..<length (warehouses s)],
             c_op = EQ, c_rhs = of_int (supply_qty s ! i) \<rparr>"
    if "i \<in> set [0..<length (factories s)]" for i
    using that ls by (simp add: supply_constraint_def py_index_def bind_err_def)
  have dem: "demand_constraint s j =
       Inr \<lparr> c_lhs = map (\<lambda>i. (1, (i, j))) [0..<length (factories s)],
             c_op = EQ, c_rhs = of_int (demand_qty s ! j) \<rparr>"
    if "j \<in> set [0..<length (warehouses s)]" for j
    using that ld by (simp add: demand_constraint_def py_index_def bind_err_def)
  show ?thesis
    unfolding build_basic_model_def
    by (simp only: sequence_err_total [of _ _ "\<lambda>ij. (cost_matrix s ! fst ij ! snd ij, ij)", OF cost]
        sequence_err_total [OF sup] sequence_err_total [OF dem]) (simp add: bind_err_def)
qed

lemma supply_constraint_Inr:
  "supply_constraint s i = Inr c \<Longrightarrow>
     c = \<lparr> c_lhs = map (\<lambda>j. (1, (i, j))) [0..<length (warehouses s)],
           c_op = EQ, c_rhs = of_int (supply_qty s ! i) \<rparr>"
  by (auto simp add: supply_constraint_def py_index_def elim!: bind_err_InrE split: if_splits)

lemma demand_constraint_Inr:
  "demand_constraint s j = Inr c \<Longrightarrow>
     c = \<lparr> c_lhs = map (\<lambda>i. (1, (i, j))) [0..<length (factories s)],
           c_op = EQ, c_rhs = of_int (demand_qty s ! j) \<rparr>"
  by (auto simp add: demand_constraint_def py_index_def elim!: bind_err_InrE split: if_splits)

lemma build_basic_model_rows:
  assumes "build_basic_model s = Inr m"
  shows "p_constraints m =
           map (\<lambda>i. \<lparr> c_lhs = map (\<lambda>j. (1, (i, j))) [0..<length (warehouses s)],
                       c_op = EQ, c_rhs = of_int (supply_qty s ! i) \<rparr>)
             [0..<length (factories s)] @
           map (\<lambda>j. \<lparr> c_lhs = map (\<lambda>i. (1, (i, j))) [0..<length (factories s)],
                       c_op = EQ, c_rhs = of_int (demand_qty s ! j) \<rparr>)
             [0..<length (warehouses s)]"
proof -
  from build_basic_model_Inr [OF assms] obtain sc dc where
    sc: "sequence_err (map (supply_constraint s) [0..<length (factories s)]) = Inr sc" and
    dc: "sequence_err (map (demand_constraint s) [0..<length (warehouses s)]) = Inr dc" and
    m: "p_constraints m = sc @ dc"
    by blast
  have "map (\<lambda>c. c) sc =
          map (\<lambda>i. \<lparr> c_lhs = map (\<lambda>j. (1, (i, j))) [0..<length (warehouses s)],
                      c_op = EQ, c_rhs = of_int (supply_qty s ! i) \<rparr>) [0..<length (factories s)]"
    by (rule sequence_err_map_fun [OF sc]) (rule supply_constraint_Inr)
  moreover have "map (\<lambda>c. c) dc =
          map (\<lambda>j. \<lparr> c_lhs = map (\<lambda>i. (1, (i, j))) [0..<length (factories s)],
                      c_op = EQ, c_rhs = of_int (demand_qty s ! j) \<rparr>) [0..<length (warehouses s)]"
    by (rule sequence_err_map_fun [OF dc]) (rule demand_constraint_Inr)
  ultimately show ?thesis by (simp add: m)
qed

lemma model_of_basic: "model_of_scenario basic_scenario = Inr basic_model"
proof -
  have "shape_ok basic_scenario"
    by (simp add: basic_scenario_def shape_ok_def)
  then show ?thesis
    using basic_balanced basic_model_built
    by (simp add: model_of_scenario_def cost_table_def bind_err_def)
qed

lemma route_detail_of_total:
  assumes "shape_ok s" and "ij \<in> set (route_vars s)"
  shows "route_detail_of s val ij =
     Inr (if val ij > 0
          then [\<lparr> rd_from = factories s ! fst ij, rd_to = warehouses s ! snd ij,
                   rd_quantity = val ij, rd_unit_cost = cost_matrix s ! fst ij ! snd ij,
                   rd_total_cost = val ij * (cost_matrix s ! fst ij ! snd ij) \<rparr>]
          else [])"
proof -
  from route_vars_bounds [OF assms(2)] have i: "fst ij < length (factories s)"
    and j: "snd ij < length (warehouses s)" by simp_all
  from i assms(1) have i': "fst ij < length (cost_matrix s)"
    by (simp add: shape_ok_def)
  with assms(1) have "length (cost_matrix s ! fst ij) = length (warehouses s)"
    by (simp add: shape_ok_def list_all_length)
  with i i' j show ?thesis
    by (simp add: route_detail_of_def cost_at_def py_index_def bind_err_def)
qed

lemma solve_basic_transportation_run:
  "\<exists>st sol. solve_basic_transportation solver tp_init =
       Inr (st,
            [Print ''basic transportation problem'', Print ''cost matrix'', SolverCall ''CBC'',
             PrintValue ''minimum transport cost''
               (lp_value (solver basic_model) (p_objective basic_model))],
            sol, lp_value (solver basic_model) (p_objective basic_model)) \<and>
       map_option b_scenario (basic st) = Some basic_scenario"
proof -
  have shape: "shape_ok basic_scenario"
    by (simp add: basic_scenario_def shape_ok_def)
  have reb: "rebalance basic_scenario = Inr (basic_scenario, [])"
    using basic_balanced by simp
  note rd = sequence_err_total [of "route_vars basic_scenario"
      "route_detail_of basic_scenario (solver basic_model)", OF route_detail_of_total [OF shape]]
  show ?thesis
    unfolding solve_basic_transportation_def solve_basic_transportation_on_def
    by (simp add: cost_table_def shape reb basic_model_built bind_err_def Let_def rd)
qed

lemma rebalance_surplus:
  assumes "sum_list (supply_qty s) > sum_list (demand_qty s)" and "length (cost_matrix s) = 3"
  shows "rebalance s =
     Inr (s\<lparr> demand_qty := demand_qty s @ [sum_list (supply_qty s) - sum_list (demand_qty s)],
            warehouses := warehouses s @ [''dummy warehouse''],
            cost_matrix := map (\<lambda>row. row @ [0]) (cost_matrix s) \<rparr>,
          [Warning ''unbalanced problem: supply differs from demand'',
           Print ''added dummy warehouse''])"
  using assms by (simp add: rebalance_def column_stack_zeros_def bind_err_def)

lemma rebalance_deficit:
  assumes "sum_list (supply_qty s) < sum_list (demand_qty s)"
    and "cost_matrix s \<noteq> []"
    and "list_all (\<lambda>row. length row = length (warehouses s)) (cost_matrix s)"
  shows "rebalance s =
     Inr (s\<lparr> supply_qty := supply_qty s @ [sum_list (demand_qty s) - sum_list (supply_qty s)],
            factories := factories s @ [''dummy factory''],
            cost_matrix := cost_matrix s @ [replicate (length (warehouses s)) 0] \<rparr>,
          [Warning ''unbalanced problem: supply differs from demand'',
           Print ''added dummy factory''])"
  using assms by (simp add: rebalance_def vstack_zeros_def bind_err_def)

lemma rebalance_balances:
  assumes "rebalance s = Inr (s', out)"
  shows "sum_list (supply_qty s') = sum_list (demand_qty s')"
  using assms
  by (auto simp add: rebalance_def vstack_zeros_def column_stack_zeros_def bind_err_def
      split: if_splits)

lemma rebalance_surplus_needs_three_rows:
  assumes "sum_list (supply_qty s) > sum_list (demand_qty s)" and "length (cost_matrix s) \<noteq> 3"
  shows "rebalance s = Inl ValueError"
  using assms by (simp add: rebalance_def column_stack_zeros_def bind_err_def)

lemma map_index_upt: "n = length xs \<Longrightarrow> map (\<lambda>i. f (xs ! i)) [0..<n] = map f xs"
  by (rule nth_equalityI) simp_all

lemma shape_mismatch_raises:
  "\<not> shape_ok s \<Longrightarrow> model_of_scenario s = Inl ValueError"
  by (simp add: model_of_scenario_def cost_table_def bind_err_def)

lemma balanced_scenario_builds:
  assumes "shape_ok s" and "length (supply_qty s) = length (factories s)"
    and "length (demand_qty s) = length (warehouses s)"
    and "sum_list (supply_qty s) = sum_list (demand_qty s)"
  shows "\<exists>m. model_of_scenario s = Inr m \<and>
           map c_rhs (p_constraints m) = map of_int (supply_qty s @ demand_qty s)"
proof -
  obtain m where m: "build_basic_model s = Inr m"
    using build_basic_model_total [OF assms(1-3)] by blast
  from assms have "model_of_scenario s = build_basic_model s"
    by (simp add: model_of_scenario_def cost_table_def rebalance_def bind_err_def)
  moreover have "map c_rhs (p_constraints m) = map of_int (supply_qty s @ demand_qty s)"
    using build_basic_model_rhs [OF m] assms(2,3) by (simp add: map_index_upt)
  ultimately show ?thesis
    using m by simp
qed

lemma negative_scenario_facts:
  "shape_ok negative_scenario"
  "length (supply_qty negative_scenario) = length (factories negative_scenario)"
  "length (demand_qty negative_scenario) = length (warehouses negative_scenario)"
  "sum_list (supply_qty negative_scenario) = sum_list (demand_qty negative_scenario)"
  "supply_qty negative_scenario @ demand_qty negative_scenario =
     [- 300, 1000, 500, 250, 350, 400, 200]"
  by (simp_all add: negative_scenario_def basic_scenario_def shape_ok_def)


lemma coef_expr_total:
  "3 \<le> length xs \<Longrightarrow> coef_expr xs = Inr (map (\<lambda>j. (xs ! j, j)) [0, 1, 2])"
  by (auto simp add: coef_expr_def py_index_def bind_err_def)

lemma production_problem_total:
  assumes "3 \<le> length prof" and "3 \<le> length lab" and "3 \<le> length mat"
  shows "production_problem prof lab mat la ma =
     Inr \<lparr> p_sense = LpMaximize, p_vars = [0, 1, 2],
           p_objective = map (\<lambda>j. (prof ! j, j)) [0, 1, 2],
           p_constraints = [\<lparr> c_lhs = map (\<lambda>j. (lab ! j, j)) [0, 1, 2], c_op = LE, c_rhs = la \<rparr>,
                            \<lparr> c_lhs = map (\<lambda>j. (mat ! j, j)) [0, 1, 2], c_op = LE, c_rhs = ma \<rparr>] \<rparr>"
  using assms by (simp add: production_problem_def coef_expr_total bind_err_def)

lemma production_model_built:
  "production_problem [40, 30, 50] [2, 1, 3] [1, 2, 1] 100 80 = Inr production_model"
  by (simp add: production_problem_total production_model_def)

lemma solve_production_planning_result:
  "solve_production_planning solver lp_init =
     Inr (solved_state solver,
          [Print ''production planning'', SolverCall ''CBC'',
           PrintValue ''max profit'' (max_profit (solved_result solver)),
           PrintValue ''labor utilisation percent''
             (labor_used (solved_result solver) / 100 * 100),
           PrintValue ''material utilisation percent''
             (material_used (solved_result solver) / 80 * 100)],
          solution (solved_result solver),
          max_profit (solved_result solver))"
  unfolding solve_production_planning_def solve_production_planning_on_def
  by (simp add: lp_init_def alloc_def production_data_def production_model_built
      py_index_def bind_err_def resource_used_def py_div_def Let_def solved_state_def
      solved_result_def lp_value_def production_model_def)

lemma sensitivity_variant_result:
  assumes "profit r < length h" and "h ! profit r = base" and "i < length base"
    and "3 \<le> length base" and "3 \<le> length (labor_req r)" and "3 \<le> length (material_req r)"
  shows "sensitivity_variant solver r h i change =
           Inr (h @ [variant_profits base i change], variant_events solver r base i change)"
proof -
  have "3 \<le> length (variant_profits base i change)"
    using assms(4) by (simp add: variant_profits_def)
  note pp = production_problem_total [OF this assms(5,6)]
  show ?thesis
    unfolding sensitivity_variant_def
    using assms(1-3)
    by (simp add: py_index_def bind_err_def alloc_def store_item_def nth_append Let_def pp
        variant_profits_def [symmetric] variant_events_def variant_model_def)
qed

lemma sensitivity_changes_result:
  assumes "profit r < length h" and "h ! profit r = base" and "i < length base"
    and "3 \<le> length base" and "3 \<le> length (labor_req r)" and "3 \<le> length (material_req r)"
  shows "sensitivity_changes solver r h i cs =
           Inr (h @ map (variant_profits base i) cs,
                concat (map (variant_events solver r base i) cs))"
  using assms(1,2)
proof (induction cs arbitrary: h)
  case Nil
  then show ?case by simp
next
  case (Cons c cs)
  have v: "sensitivity_variant solver r h i c =
           Inr (h @ [variant_profits base i c], variant_events solver r base i c)"
    using sensitivity_variant_result [OF Cons.prems assms(3-6)] .
  have "profit r < length (h @ [variant_profits base i c])"
    "(h @ [variant_profits base i c]) ! profit r = base"
    using Cons.prems by (simp_all add: nth_append)
  from Cons.IH [OF this] show ?case
    by (simp add: v bind_err_def)
qed

lemma sensitivity_products_result:
  assumes "profit r < length h" and "h ! profit r = base" and "list_all (\<lambda>i. i < length base) idx"
    and "3 \<le> length base" and "3 \<le> length (labor_req r)" and "3 \<le> length (material_req r)"
  shows "sensitivity_products solver r h idx =
           Inr (h @ concat (map (\<lambda>i. map (variant_profits base i) [-20, -10, 10, 20]) idx),
                concat (map (\<lambda>i. Print ''effect of a profit change of this product'' #
                                 concat (map (variant_events solver r base i) [-20, -10, 10, 20]))
                          idx))"
  using assms(1,2,3)
proof (induction idx arbitrary: h)
  case Nil
  then show ?case by simp
next
  case (Cons i idx)
  from Cons.prems(3) have i: "i < length base" and rest: "list_all (\<lambda>i. i < length base) idx"
    by simp_all
  note c = sensitivity_changes_result [OF Cons.prems(1,2) i assms(4-6), of solver "[-20, -10, 10, 20]"]
  have "profit r < length (h @ map (variant_profits base i) [-20, -10, 10, 20])"
    "(h @ map (variant_profits base i) [-20, -10, 10, 20]) ! profit r = base"
    using Cons.prems(1,2) by (simp_all add: nth_append)
  from Cons.IH [OF this rest] show ?case
    unfolding sensitivity_products.simps c by (simp add: bind_err_def)
qed

lemma sensitivity_analysis_result:
  assumes "lp_results st = Some r" and "profit r < length (heap st)"
    and "heap st ! profit r = base" and "length (products r) \<le> length base"
    and "3 \<le> length base" and "3 \<le> length (labor_req r)" and "3 \<le> length (material_req r)"
  shows "sensitivity_analysis solver st =
           Inr (st\<lparr> heap := heap st @ sensitivity_copies base (length (products r)) \<rparr>,
                sensitivity_events solver r base)"
proof -
  have "list_all (\<lambda>i. i < length base) [0..<length (products r)]"
    using assms(4) by (simp add: list_all_iff)
  note p = sensitivity_products_result [OF assms(2,3) this assms(5-7), of solver]
  show ?thesis
    unfolding sensitivity_analysis_def
    by (simp add: assms(1) p bind_err_def sensitivity_copies_def sensitivity_events_def)
qed

lemma solver_calls_append: "solver_calls (xs @ ys) = solver_calls xs + solver_calls ys"
  by (simp add: solver_calls_def)

lemma solver_calls_Cons:
  "solver_calls (e # es) = (case e of SolverCall _ \<Rightarrow> 1 | _ \<Rightarrow> 0) + solver_calls es"
  by (cases e) (simp_all add: solver_calls_def)

lemma solver_calls_Nil: "solver_calls [] = 0"
  by (simp add: solver_calls_def)

lemma solver_calls_concat:
  "solver_calls (concat (map f xs)) = sum_list (map (\<lambda>x. solver_calls (f x)) xs)"
  by (induction xs) (simp_all add: solver_calls_Nil solver_calls_append)

lemma solver_calls_variant: "solver_calls (variant_events solver r base i c) = 1"
  by (simp add: variant_events_def Let_def solver_calls_Cons solver_calls_Nil)

lemma solver_calls_sensitivity:
  "solver_calls (sensitivity_events solver r base) = 4 * length (products r)"
  by (simp add: sensitivity_events_def solver_calls_Cons solver_calls_concat solver_calls_append
      solver_calls_variant solver_calls_Nil sum_list_triv)

lemma savefigs_append: "savefigs (xs @ ys) = savefigs xs + savefigs ys"
  by (simp add: savefigs_def)

lemma savefigs_Cons:
  "savefigs (e # es) = (case e of SaveFig _ \<Rightarrow> 1 | _ \<Rightarrow> 0) + savefigs es"
  by (cases e) (simp_all add: savefigs_def)

lemma savefigs_Nil: "savefigs [] = 0"
  by (simp add: savefigs_def)

lemma savefigs_concat:
  "savefigs (concat (map f xs)) = sum_list (map (\<lambda>x. savefigs (f x)) xs)"
  by (induction xs) (simp_all add: savefigs_Nil savefigs_append)

lemma savefigs_sensitivity: "savefigs (sensitivity_events solver r base) = 0"
  by (simp add: sensitivity_events_def savefigs_Cons savefigs_concat savefigs_append
      variant_events_def Let_def savefigs_Nil)

lemma solved_state_facts:
  "lp_results (solved_state solver) = Some (solved_result solver)"
  "heap (solved_state solver) = [[40, 30, 50]]"
  by (simp_all add: solved_state_def)

lemma solved_result_facts:
  "profit (solved_result solver) = 0"
  "products (solved_result solver) = [''product A'', ''product B'', ''product C'']"
  "labor_req (solved_result solver) = [2, 1, 3]"
  "material_req (solved_result solver) = [1, 2, 1]"
  "labor_available (solved_result solver) = 100"
  "material_available (solved_result solver) = 80"
  "length (solution (solved_result solver)) = 3"
  by (simp_all add: solved_result_def Let_def)

lemma lp_visualize_solved:
  "lp_visualize_results (solved_state solver) =
     Inr (solved_state solver,
          [Print ''generating charts'', SaveFig ''linear_programming_results.png'',
           Print ''chart saved''])"
  by (simp add: lp_visualize_results_def solved_state_def solved_result_def Let_def py_div_def
      bind_err_def contributions_def upt_3 py_index_def)

lemma lp_sensitivity_solved:
  "sensitivity_analysis solver (solved_state solver) =
     Inr ((solved_state solver) \<lparr> heap := [[40, 30, 50]] @ sensitivity_copies [40, 30, 50] 3 \<rparr>,
          sensitivity_events solver (solved_result solver) [40, 30, 50])"
  using sensitivity_analysis_result [of "solved_state solver"
      "solved_result solver" "[40, 30, 50]" solver]
  by (simp add: solved_state_facts solved_result_facts numeral_3_eq_3)

lemma lp_report_solved:
  "lp_generate_report ((solved_state solver) \<lparr> heap := [[40, 30, 50]] @ hs \<rparr>) =
     Inr ((solved_state solver) \<lparr> heap := [[40, 30, 50]] @ hs \<rparr>, report_events solver)"
  by (simp add: lp_generate_report_def solved_state_def solved_result_def Let_def py_div_def
      bind_err_def report_events_def)

lemma lp_main_events:
  "lp_main solver =
     Inr (solve_events solver @
          [Print ''generating charts'', SaveFig ''linear_programming_results.png'',
           Print ''chart saved''] @
          sensitivity_events solver (solved_result solver) [40, 30, 50] @
          report_events solver @ [Print ''demo finished''])"
  unfolding lp_main_def
  by (simp only: solve_production_planning_result solve_events_def [symmetric] bind_err_def
      sum.case prod.case lp_visualize_solved lp_sensitivity_solved lp_report_solved)

lemma after_savefig_append:
  "savefigs xs = 0 \<Longrightarrow> after_savefig (xs @ ys) = after_savefig ys"
proof (induction xs)
  case Nil
  then show ?case by simp
next
  case (Cons e xs)
  then show ?case by (cases e) (simp_all add: savefigs_Cons)
qed

lemma lp_main_counts:
  "\<exists>es. lp_main solver = Inr es \<and> savefigs es = 1 \<and> solver_calls es = 13 \<and>
        solver_calls (after_savefig es) = 12"
proof -
  have n: "length (products (solved_result solver)) = 3"
    by (simp add: solved_result_facts)
  have 0: "savefigs (solve_events solver) = 0"
    by (simp add: solve_events_def savefigs_Cons savefigs_Nil)
  have 1: "savefigs (report_events solver) = 0" "solver_calls (report_events solver) = 0"
    by (simp_all add: report_events_def savefigs_Cons savefigs_Nil solver_calls_Cons solver_calls_Nil)
  have 2: "solver_calls (solve_events solver) = 1"
    by (simp add: solve_events_def solver_calls_Cons solver_calls_Nil)
  show ?thesis
    unfolding lp_main_events
    by (simp add: after_savefig_append [OF 0] savefigs_append savefigs_Cons savefigs_Nil
        savefigs_sensitivity 0 1 2 solver_calls_append solver_calls_Cons solver_calls_Nil
        solver_calls_sensitivity n)
qed

lemma optimal_plan_feasible: "lp_feasible basic_model optimal_plan"
  by (simp add: lp_feasible_def basic_model_def lp_holds_def lp_value_def optimal_plan_def)

lemma optimal_plan_cost: "lp_value optimal_plan (p_objective basic_model) = 10700"
  by (simp add: basic_model_def lp_value_def optimal_plan_def)

lemma shipped_route_details:
  "sequence_err (map (route_detail_of basic_scenario optimal_plan) (route_vars basic_scenario)) =
     Inr [[], [shipped_routes ! 0], [shipped_routes ! 1], [],
          [shipped_routes ! 2], [], [shipped_routes ! 3], [],
          [], [shipped_routes ! 4], [], [shipped_routes ! 5]]"
  unfolding route_vars_basic
  by (simp add: route_detail_of_def optimal_plan_def cost_at_def py_index_def bind_err_def
      basic_scenario_def shipped_routes_def)

lemma solve_shipped:
  "solve_basic_transportation (\<lambda>p. optimal_plan) tp_init =
     Inr (shipped_state,
          [Print ''basic transportation problem'', Print ''cost matrix'', SolverCall ''CBC'',
           PrintValue ''minimum transport cost'' 10700],
          [[0, 50, 250, 0], [250, 0, 150, 0], [0, 300, 0, 200]], 10700)"
proof -
  have shape: "shape_ok basic_scenario"
    by (simp add: basic_scenario_def shape_ok_def)
  have reb: "rebalance basic_scenario = Inr (basic_scenario, [])"
    using basic_balanced by simp
  have len: "length (warehouses basic_scenario) = 4" "length (factories basic_scenario) = 3"
    by (simp_all add: basic_scenario_def)
  show ?thesis
    unfolding solve_basic_transportation_def solve_basic_transportation_on_def
    by (simp add: cost_table_def shape reb basic_model_built bind_err_def Let_def
        shipped_route_details optimal_plan_cost len upt_3 upt_4 tp_init_def
        shipped_state_def shipped_routes_def optimal_plan_def)
qed

lemma cost_sensitivity_shipped:
  "cost_sensitivity_analysis shipped_state = Inr (shipped_state, shipped_estimates)"
  by (simp add: cost_sensitivity_analysis_def shipped_state_def shipped_routes_def
      estimated_costs_def shipped_estimates_def)

lemma solver_calls_shipped: "solver_calls shipped_estimates = 0"
  by (simp add: shipped_estimates_def solver_calls_Cons solver_calls_Nil)

lemma transport_estimates:
  assumes "basic t = Some b"
  shows "cost_sensitivity_analysis t =
     Inr (t, Print ''transport cost sensitivity analysis'' #
             concat (map (\<lambda>route.
                       Print ''route'' #
                       concat (map (\<lambda>c. [PrintValue ''estimated total cost''
                                            (b_min_cost b + rd_total_cost route * c / 100),
                                          PrintValue ''change'' (rd_total_cost route * c / 100)])
                                 [-20, -10, 10, 20]))
                     (take 3 (b_route_details b))))"
  using assms by (simp add: cost_sensitivity_analysis_def estimated_costs_def)

lemma transport_estimates_no_solve:
  "solver_calls (Print ''transport cost sensitivity analysis'' #
             concat (map (\<lambda>route.
                       Print ''route'' #
                       concat (map (\<lambda>c. [PrintValue ''estimated total cost''
                                            (base_cost + rd_total_cost route * c / 100),
                                          PrintValue ''change'' (rd_total_cost route * c / 100)])
                                 [-20, -10, 10, 20]))
                     routes)) = 0"
  by (simp add: solver_calls_Cons solver_calls_concat solver_calls_append solver_calls_Nil)

(*LEMMAS*)

section \<open>The basic transportation model\<close>

text \<open>
  C9. In the basic transportation model every supply constraint and every demand
  constraint is an equality: the row of factory \<open>i\<close> equates the sum of \<open>x[i,j]\<close> over all
  warehouses with \<open>supply[i]\<close>, the row of warehouse \<open>j\<close> equates the sum of \<open>x[i,j]\<close> over
  all factories with \<open>demand[j]\<close>, and there are no other rows. For the data of the script
  total supply and total demand are both 1200, the balance check returns the scenario
  unchanged and announces nothing, the model handed to the solver is the one built from
  the unchanged data, and the run of \<^verbatim>\<open>solve_basic_transportation\<close> prints no imbalance
  notice and stores the scenario without a dummy node.
\<close>

theorem basic_transportation_equalities:
  assumes "build_basic_model s = Inr m"
  shows "p_constraints m =
           map (\<lambda>i. \<lparr> c_lhs = map (\<lambda>j. (1, (i, j))) [0..<length (warehouses s)],
                       c_op = EQ, c_rhs = of_int (supply_qty s ! i) \<rparr>)
             [0..<length (factories s)] @
           map (\<lambda>j. \<lparr> c_lhs = map (\<lambda>i. (1, (i, j))) [0..<length (factories s)],
                       c_op = EQ, c_rhs = of_int (demand_qty s ! j) \<rparr>)
             [0..<length (warehouses s)] \<and>
         list_all (\<lambda>c. c_op c = EQ) (p_constraints m) \<and>
         map c_rhs (p_constraints m) =
           map (\<lambda>i. of_int (supply_qty s ! i)) [0..<length (factories s)] @
           map (\<lambda>j. of_int (demand_qty s ! j)) [0..<length (warehouses s)] \<and>
         sum_list (supply_qty basic_scenario) = 1200 \<and>
         sum_list (demand_qty basic_scenario) = 1200 \<and>
         rebalance basic_scenario = Inr (basic_scenario, []) \<and>
         model_of_scenario basic_scenario = Inr basic_model \<and>
         (\<exists>st sol. solve_basic_transportation solver tp_init =
            Inr (st,
                 [Print ''basic transportation problem'', Print ''cost matrix'',
                  SolverCall ''CBC'',
                  PrintValue ''minimum transport cost''
                    (lp_value (solver basic_model) (p_objective basic_model))],
                 sol, lp_value (solver basic_model) (p_objective basic_model)) \<and>
            map_option b_scenario (basic st) = Some basic_scenario)"
  using build_basic_model_rows [OF assms] build_basic_model_constraints [OF assms]
    build_basic_model_rhs [OF assms] basic_balanced model_of_basic
    solve_basic_transportation_run [of solver]
  by (intro conjI) simp_all

theorem basic_transportation_equalities_witness:
  "p_constraints basic_model =
     [\<lparr>c_lhs = [(1, 0, 0), (1, 0, 1), (1, 0, 2), (1, 0, 3)], c_op = EQ, c_rhs = 300\<rparr>,
      \<lparr>c_lhs = [(1, 1, 0), (1, 1, 1), (1, 1, 2), (1, 1, 3)], c_op = EQ, c_rhs = 400\<rparr>,
      \<lparr>c_lhs = [(1, 2, 0), (1, 2, 1), (1, 2, 2), (1, 2, 3)], c_op = EQ, c_rhs = 500\<rparr>,
      \<lparr>c_lhs = [(1, 0, 0), (1, 1, 0), (1, 2, 0)], c_op = EQ, c_rhs = 250\<rparr>,
      \<lparr>c_lhs = [(1, 0, 1), (1, 1, 1), (1, 2, 1)], c_op = EQ, c_rhs = 350\<rparr>,
      \<lparr>c_lhs = [(1, 0, 2), (1, 1, 2), (1, 2, 2)], c_op = EQ, c_rhs = 400\<rparr>,
      \<lparr>c_lhs = [(1, 0, 3), (1, 1, 3), (1, 2, 3)], c_op = EQ, c_rhs = 200\<rparr>] \<and>
   list_all (\<lambda>c. c_op c = EQ) (p_constraints basic_model) \<and>
   map c_rhs (p_constraints basic_model) = [300, 400, 500, 250, 350, 400, 200] \<and>
   rebalance basic_scenario = Inr (basic_scenario, []) \<and>
   model_of_scenario basic_scenario = Inr basic_model"
  using basic_transportation_equalities [OF basic_model_built, of "\<lambda>p v. 0"]
  by (simp add: basic_scenario_def upt_3 upt_4)

section \<open>Rebalancing an unbalanced scenario\<close>


section \<open>What the model builder checks\<close>

text \<open>
  C6, as claimed: the builder fails whenever a supply, demand or capacity is negative.
  It does not: with the first supply set to \<open>-300\<close> the model is built, and
  its first row demands that factory A ship \<open>-300\<close>.
\<close>

theorem negative_supply_accepted:
  "list_ex (\<lambda>b. b < 0) (supply_qty negative_scenario) \<and>
   (\<exists>m. model_of_scenario negative_scenario = Inr m \<and>
        map c_rhs (p_constraints m) = [- 300, 1000, 500, 250, 350, 400, 200])"
proof
  show "list_ex (\<lambda>b. b < 0) (supply_qty negative_scenario)"
    by (simp add: negative_scenario_def basic_scenario_def)
  from balanced_scenario_builds [OF negative_scenario_facts(1-4)]
  show "\<exists>m. model_of_scenario negative_scenario = Inr m \<and>
        map c_rhs (p_constraints m) = [- 300, 1000, 500, 250, 350, 400, 200]"
    unfolding negative_scenario_facts(5) by simp
qed

text \<open>
  C6, as the code has it. The only check is the one pandas makes when the cost table is
  printed: a cost matrix whose shape disagrees with the numbers of factories and
  warehouses raises ValueError before the model is built. A balanced scenario of
  consistent shape and list lengths is accepted whatever the signs of its supplies and
  demands, and they become the right-hand sides of the model's rows.
\<close>

theorem builder_checks_shape_only:
  "(\<not> shape_ok s \<longrightarrow> model_of_scenario s = Inl ValueError) \<and>
   (shape_ok s \<and> length (supply_qty s) = length (factories s) \<and>
    length (demand_qty s) = length (warehouses s) \<and>
    sum_list (supply_qty s) = sum_list (demand_qty s) \<longrightarrow>
      (\<exists>m. model_of_scenario s = Inr m \<and>
           map c_rhs (p_constraints m) = map of_int (supply_qty s @ demand_qty s)))"
  using shape_mismatch_raises balanced_scenario_builds by blast

theorem builder_checks_shape_only_witness:
  "model_of_scenario short_matrix_scenario = Inl ValueError \<and>
   (\<exists>m. model_of_scenario negative_scenario = Inr m \<and>
        map c_rhs (p_constraints m) = [- 300, 1000, 500, 250, 350, 400, 200])"
proof
  have "\<not> shape_ok short_matrix_scenario"
    by (simp add: short_matrix_scenario_def basic_scenario_def shape_ok_def)
  with builder_checks_shape_only [of short_matrix_scenario]
  show "model_of_scenario short_matrix_scenario = Inl ValueError" by blast
  from builder_checks_shape_only [of negative_scenario] negative_scenario_facts(1-4)
  have "\<exists>m. model_of_scenario negative_scenario = Inr m \<and>
        map c_rhs (p_constraints m) =
          map of_int (supply_qty negative_scenario @ demand_qty negative_scenario)"
    by blast
  then show "\<exists>m. model_of_scenario negative_scenario = Inr m \<and>
        map c_rhs (p_constraints m) = [- 300, 1000, 500, 250, 350, 400, 200]"
    unfolding negative_scenario_facts(5) by simp
qed

section \<open>Methods called before any solve\<close>

text \<open>
  C10. Every visualisation, analysis and report method of the three demo classes, called
  on an object whose results container (and, for the network demo, whose graph
  container) is still empty, prints its warning and returns, raising nothing and leaving
  the object as it was. The methods have no return value other than \<^verbatim>\<open>None\<close>: a result
  \<open>Inr\<close> carries the state after the call and what was printed.
\<close>

theorem unsolved_methods_warn:
  assumes "lp_results l = None" and "results_empty n" and "graphs_empty n"
    and "basic t = None" and "multi_product t = None"
  shows "lp_visualize_results l = Inr (l, [Warning ''run a solve method first'']) \<and>
         sensitivity_analysis solver l = Inr (l, [Warning ''run a solve method first'']) \<and>
         lp_generate_report l = Inr (l, [Warning ''run a solve method first'']) \<and>
         nf_visualize_results n = Inr (n, [Warning ''run a solve method first'']) \<and>
         network_analysis nx n = Inr (n, [Warning ''run a solve method first'']) \<and>
         nf_generate_report n = Inr (n, [Warning ''run a solve method first'']) \<and>
         tp_visualize_results t = Inr (t, [Warning ''run a solve method first'']) \<and>
         cost_sensitivity_analysis t =
           Inr (t, [Warning ''run the basic transportation solve first'']) \<and>
         tp_generate_report t = Inr (t, [Warning ''run a solve method first''])"
  using assms
  by (simp add: lp_visualize_results_def sensitivity_analysis_def lp_generate_report_def
      nf_visualize_results_def network_analysis_def nf_generate_report_def
      tp_visualize_results_def cost_sensitivity_analysis_def tp_generate_report_def)

theorem unsolved_methods_warn_witness:
  "lp_visualize_results lp_init = Inr (lp_init, [Warning ''run a solve method first'']) \<and>
   sensitivity_analysis (\<lambda>p v. 0) lp_init = Inr (lp_init, [Warning ''run a solve method first'']) \<and>
   lp_generate_report lp_init = Inr (lp_init, [Warning ''run a solve method first'']) \<and>
   nf_visualize_results nf_init = Inr (nf_init, [Warning ''run a solve method first'']) \<and>
   network_analysis idle_nx nf_init = Inr (nf_init, [Warning ''run a solve method first'']) \<and>
   nf_generate_report nf_init = Inr (nf_init, [Warning ''run a solve method first'']) \<and>
   tp_visualize_results tp_init = Inr (tp_init, [Warning ''run a solve method first'']) \<and>
   cost_sensitivity_analysis tp_init =
     Inr (tp_init, [Warning ''run the basic transportation solve first'']) \<and>
   tp_generate_report tp_init = Inr (tp_init, [Warning ''run a solve method first''])"
proof -
  have "lp_results lp_init = None" "results_empty nf_init" "graphs_empty nf_init"
    "basic tp_init = None" "multi_product tp_init = None"
    by (simp_all add: lp_init_def nf_init_def tp_init_def results_empty_def graphs_empty_def)
  from unsolved_methods_warn [OF this, of "\<lambda>p v. 0" idle_nx] show ?thesis .
qed

section \<open>Sensitivity analyses\<close>

text \<open>
  C5, as claimed: no sensitivity variant is costed without a re-solve. The transportation
  demo does exactly that. After the basic problem is solved with the optimal plan (cost
  10700), \<^verbatim>\<open>cost_sensitivity_analysis\<close> prints twelve estimated totals, each the stored
  minimum cost plus the stored cost of one route scaled by the percentage, and calls no
  solver.
\<close>

theorem transport_sensitivity_never_solves:
  "solve_basic_transportation (\<lambda>p. optimal_plan) tp_init =
     Inr (shipped_state,
          [Print ''basic transportation problem'', Print ''cost matrix'', SolverCall ''CBC'',
           PrintValue ''minimum transport cost'' 10700],
          [[0, 50, 250, 0], [250, 0, 150, 0], [0, 300, 0, 200]], 10700) \<and>
   cost_sensitivity_analysis shipped_state = Inr (shipped_state, shipped_estimates) \<and>
   solver_calls shipped_estimates = 0 \<and>
   length (filter (\<lambda>e. case e of PrintValue s v \<Rightarrow> s = ''estimated total cost'' | _ \<Rightarrow> False)
             shipped_estimates) = 12"
  using solve_shipped cost_sensitivity_shipped solver_calls_shipped
  by (simp add: shipped_estimates_def)

text \<open>
  C5, as the code has it. The profit sensitivity analysis of the production-planning
  demo takes, for every product and each of the four percentages, a fresh copy of the
  stored profit list, changes one entry of the copy, and builds and solves a new model
  from it: four solver calls per product, the stored results and every list that existed
  before the call unchanged, the copies being new objects behind them. The cost
  sensitivity analysis of the transportation demo builds and solves nothing: for each of
  the first three stored routes and each percentage it prints the stored minimum cost plus
  that route's stored cost scaled by the percentage, and leaves the object unchanged.
\<close>

theorem sensitivity_isolation:
  assumes "lp_results st = Some r" and "profit r < length (heap st)"
    and "heap st ! profit r = base" and "length (products r) \<le> length base"
    and "3 \<le> length base" and "3 \<le> length (labor_req r)" and "3 \<le> length (material_req r)"
    and "basic t = Some b"
  shows "(\<exists>st' es. sensitivity_analysis solver st = Inr (st', es) \<and>
            lp_results st' = lp_results st \<and>
            heap st' = heap st @ sensitivity_copies base (length (products r)) \<and>
            take (length (heap st)) (heap st') = heap st \<and>
            heap st' ! profit r = base \<and>
            es = sensitivity_events solver r base \<and>
            solver_calls es = 4 * length (products r)) \<and>
         (\<exists>es. cost_sensitivity_analysis t = Inr (t, es) \<and>
            es = Print ''transport cost sensitivity analysis'' #
                 concat (map (\<lambda>route.
                           Print ''route'' #
                           concat (map (\<lambda>c. [PrintValue ''estimated total cost''
                                                (b_min_cost b + rd_total_cost route * c / 100),
                                              PrintValue ''change''
                                                (rd_total_cost route * c / 100)])
                                     [-20, -10, 10, 20]))
                         (take 3 (b_route_details b))) \<and>
            solver_calls es = 0)"
proof
  show "\<exists>st' es. sensitivity_analysis solver st = Inr (st', es) \<and>
            lp_results st' = lp_results st \<and>
            heap st' = heap st @ sensitivity_copies base (length (products r)) \<and>
            take (length (heap st)) (heap st') = heap st \<and>
            heap st' ! profit r = base \<and>
            es = sensitivity_events solver r base \<and>
            solver_calls es = 4 * length (products r)"
    using sensitivity_analysis_result [OF assms(1-7), of solver] assms(2,3)
    by (simp add: solver_calls_sensitivity nth_append)
  define E where "E = Print ''transport cost sensitivity analysis'' #
                 concat (map (\<lambda>route.
                           Print ''route'' #
                           concat (map (\<lambda>c. [PrintValue ''estimated total cost''
                                                (b_min_cost b + rd_total_cost route * c / 100),
                                              PrintValue ''change''
                                                (rd_total_cost route * c / 100)])
                                     [-20, -10, 10, 20]))
                         (take 3 (b_route_details b)))"
  have e: "cost_sensitivity_analysis t = Inr (t, E)"
    unfolding E_def by (rule transport_estimates [OF assms(8)])
  have n: "solver_calls E = 0"
    unfolding E_def by (rule transport_estimates_no_solve)
  show "\<exists>es. cost_sensitivity_analysis t = Inr (t, es) \<and>
            es = Print ''transport cost sensitivity analysis'' #
                 concat (map (\<lambda>route.
                           Print ''route'' #
                           concat (map (\<lambda>c. [PrintValue ''estimated total cost''
                                                (b_min_cost b + rd_total_cost route * c / 100),
                                              PrintValue ''change''
                                                (rd_total_cost route * c / 100)])
                                     [-20, -10, 10, 20]))
                         (take 3 (b_route_details b))) \<and>
            solver_calls es = 0"
    by (intro exI [of _ E] conjI e n E_def)
qed

theorem sensitivity_isolation_witness:
  "(\<exists>st' es. sensitivity_analysis reference_solver (solved_state reference_solver) = Inr (st', es) \<and>
        lp_results st' = lp_results (solved_state reference_solver) \<and>
        heap st' = [[40, 30, 50]] @ sensitivity_copies [40, 30, 50] 3 \<and>
        heap st' ! 0 = [40, 30, 50] \<and>
        solver_calls es = 12) \<and>
   (\<exists>es. cost_sensitivity_analysis shipped_state = Inr (shipped_state, es) \<and>
        solver_calls es = 0)"
proof -
  have b: "basic shipped_state = Some (the (basic shipped_state))"
    by (simp add: shipped_state_def)
  have h: "lp_results (solved_state reference_solver) = Some (solved_result reference_solver)"
    "profit (solved_result reference_solver) < length (heap (solved_state reference_solver))"
    "heap (solved_state reference_solver) ! profit (solved_result reference_solver) = [40, 30, 50]"
    "length (products (solved_result reference_solver)) \<le> length [40, 30, 50 :: real]"
    "3 \<le> length [40, 30, 50 :: real]"
    "3 \<le> length (labor_req (solved_result reference_solver))"
    "3 \<le> length (material_req (solved_result reference_solver))"
    by (simp_all add: solved_state_facts solved_result_facts)
  from sensitivity_isolation [OF h b, of reference_solver]
  obtain st' es es' where
    "sensitivity_analysis reference_solver (solved_state reference_solver) = Inr (st', es)"
    "lp_results st' = lp_results (solved_state reference_solver)"
    "heap st' = heap (solved_state reference_solver) @
       sensitivity_copies [40, 30, 50] (length (products (solved_result reference_solver)))"
    "heap st' ! profit (solved_result reference_solver) = [40, 30, 50]"
    "solver_calls es = 4 * length (products (solved_result reference_solver))"
    "cost_sensitivity_analysis shipped_state = Inr (shipped_state, es')"
    "solver_calls es' = 0"
    by blast
  then show ?thesis
    by (simp add: solved_state_facts solved_result_facts numeral_3_eq_3)
qed

section \<open>Utilisation with nothing available\<close>








end
